theory Spec2Isabelle
  imports Main
begin

section \<open>Python values of the effect library\<close>

text \<open>
  The library is dynamically typed.  The values that travel through a callback chain are
  modelled by \<open>val\<close>; continuations are Python callables, which are represented by names
  of an arbitrary type \<open>'c\<close> and interpreted by a function
  \<open>call :: 'c \<Rightarrow> 'c val \<Rightarrow> 'c exc + 'c val\<close> (\<open>Inl\<close>: the callable raised).

  \<^item> \<open>Obj e\<close> is an instance of class \<open>Effect\<close> (\<open>klass e = Effect_class\<close>) or of a
    proper subclass of it; the fields are \<open>intent\<close> and \<open>callbacks\<close> as in
    \<open>Effect.__init__\<close>.  The class is a datatype rather than a record because values,
    effects and intents are mutually recursive.
  \<^item> \<open>ExcInfo x\<close> is the tuple \<open>sys.exc_info()\<close> for the exception \<open>x\<close>;
    \<open>FailureTuple x\<close> is the tuple \<open>(f.value, f.type, f.tb)\<close> that
    \<open>deferred_to_box\<close> builds from a Twisted failure.
  \<^item> \<open>Deferred r\<close> is a Twisted Deferred: not fired yet (\<open>None\<close>) or fired with a
    failure or a value.
  \<^item> An intent is either a \<open>ParallelEffects\<close> object (the class has no
    \<open>perform_effect\<close> method) or some other object \<open>Intent name p\<close>, where \<open>p\<close> is its
    \<open>perform_effect\<close> method if it has one.  A \<open>perform_effect\<close> method is described by
    what it does with the box (at most one call of \<open>succeed\<close> or \<open>fail\<close>) and how it
    finishes (returns a value or raises).
\<close>

datatype pyclass = Effect_class | Effect_subclass string

datatype 'c val =
    PyNone
  | PyInt int
  | PyStr string
  | ExcInfo "'c exc"
  | FailureTuple "'c exc"
  | Obj "'c effect"
  | Deferred "('c exc + 'c val) option"
and 'c effect =
    EffectObj (klass: pyclass) (intent: "'c intent") (callbacks: "('c option \<times> 'c option) list")
and 'c intent =
    ParallelEffects "'c effect list"
  | Intent string "'c performer option"
and 'c performer =
    Performer "'c box_call option" "'c exc + 'c val"
and 'c box_call =
    Succeed "'c val"
  | Fail "'c val"
and 'c exc =
    NoEffectHandlerError "'c intent"
  | TypeError string
  | AttributeError string
  | Exception string

type_synonym 'c entry = "'c option \<times> 'c option"
type_synonym 'c chain = "'c entry list"
type_synonym 'c result = "bool \<times> 'c val"
type_synonym 'c callable = "'c \<Rightarrow> 'c val \<Rightarrow> 'c exc + 'c val"

text \<open>\<open>type(value) is Effect\<close>: the exact class test; \<open>Some e\<close> exactly when it holds.\<close>

fun type_is_Effect :: "'c val \<Rightarrow> 'c effect option" where
  "type_is_Effect (Obj e) = (if klass e = Effect_class then Some e else None)"
| "type_is_Effect v = None"

text \<open>\<open>hasattr(intent, 'perform_effect')\<close>.\<close>

fun hasattr_perform_effect :: "'c intent \<Rightarrow> bool" where
  "hasattr_perform_effect (Intent n (Some p)) = True"
| "hasattr_perform_effect i = False"

text \<open>\<open>type(intent) is ParallelEffects\<close>.\<close>

fun type_is_ParallelEffects :: "'c intent \<Rightarrow> bool" where
  "type_is_ParallelEffects (ParallelEffects es) = True"
| "type_is_ParallelEffects i = False"

text \<open>\<open>isinstance(result, Deferred)\<close>.\<close>

fun isinstance_Deferred :: "'c val \<Rightarrow> bool" where
  "isinstance_Deferred (Deferred r) = True"
| "isinstance_Deferred v = False"

text \<open>\<open>entry[is_error]\<close> on a pair: index 0 (\<open>False\<close>) is the success continuation,
  index 1 (\<open>True\<close>) the error continuation.\<close>

fun select :: "'c entry \<Rightarrow> bool \<Rightarrow> 'c option" where
  "select (success, error) is_error = (if is_error then error else success)"

section \<open>The machine state\<close>

text \<open>
  A \<open>thunk\<close> is what \<open>bouncer.bounce(func, *args)\<close> records: one of the three functions
  the engine ever bounces, with its arguments.  \<open>T_more\<close> is the box's \<open>_more\<close>, the
  lambda of \<open>_perform\<close>, which closes over \<open>effect\<close>.

  The state holds the \<open>work\<close> slot of the current bouncer and two pieces of ghost state:
  \<open>invoked\<close>, the continuations called so far with their arguments, in order, and the
  Python call stack (\<open>depth\<close>: frames now open, \<open>peak\<close>: the most that were ever open).
  A Python function is a state transformer that returns a value or raises; the state
  survives a raise.
\<close>

datatype 'c more = Lambda_more "'c effect"

datatype 'c thunk =
    T_perform "'c effect"
  | T_more "'c more" "'c result"
  | T_run_callbacks "'c chain" "'c result"

record 'c machine =
  work :: "'c thunk option"
  invoked :: "('c \<times> 'c val) list"
  depth :: nat
  peak :: nat

type_synonym ('c, 'a) py = "'c machine \<Rightarrow> ('c exc + 'a) \<times> 'c machine"

definition enter :: "'c machine \<Rightarrow> 'c machine" where
  "enter st = st\<lparr>depth := Suc (depth st), peak := max (peak st) (Suc (depth st))\<rparr>"

definition leave :: "'c machine \<Rightarrow> 'c machine" where
  "leave st = st\<lparr>depth := depth st - 1\<rparr>"

text \<open>Every call of a Python function opens a frame and closes it on return or raise.\<close>

definition frame :: "('c, 'a) py \<Rightarrow> ('c, 'a) py" where
  "frame f st = (case f (enter st) of (r, st') \<Rightarrow> (r, leave st'))"

definition frame_opt ::
  "('c machine \<Rightarrow> (('c exc + 'a) \<times> 'c machine) option) \<Rightarrow>
   'c machine \<Rightarrow> (('c exc + 'a) \<times> 'c machine) option" where
  "frame_opt f st = (case f (enter st) of None \<Rightarrow> None | Some (r, st') \<Rightarrow> Some (r, leave st'))"

section \<open>The box\<close>

text \<open>
  Modelled from the spec: \<open>effect/continuation.py\<close> (the trampoline and its bouncer) is
  not among the sources.  Spec 4.1: a bounce requests the next step and "defers that call
  into an iterative loop rather than invoking it through nested calls"; so \<open>bounce\<close>
  records the function and its arguments in the bouncer and returns.
\<close>

definition bounce :: "'c thunk \<Rightarrow> ('c, unit) py" where
  "bounce t = frame (\<lambda>st. (Inr (), st\<lparr>work := Some t\<rparr>))"

text \<open>\<open>_Box\<close>: \<open>_bouncer\<close> is the bouncer of the state that is passed along; \<open>_more\<close> is
  kept in the record (\<open>more\<close> is not a legal field name).\<close>

record 'c box =
  box_more :: "'c more"

definition succeed :: "'c box \<Rightarrow> 'c val \<Rightarrow> ('c, unit) py" where
  "succeed b result = frame (bounce (T_more (box_more b) (False, result)))"

definition fail :: "'c box \<Rightarrow> 'c val \<Rightarrow> ('c, unit) py" where
  "fail b result = frame (bounce (T_more (box_more b) (True, result)))"

section \<open>Dispatchers\<close>

text \<open>A dispatcher passed as an argument is a reference to one of the two dispatcher
  functions of the library.\<close>

datatype dispatcher_ref = Default_dispatcher | Twisted_dispatcher

text \<open>\<open>intent.perform_effect(dispatcher, box)\<close>: the method uses the box as its
  description says and then returns or raises.  On an object without the attribute the
  call raises \<open>AttributeError\<close>.\<close>

fun perform_effect :: "'c intent \<Rightarrow> dispatcher_ref \<Rightarrow> 'c box \<Rightarrow> ('c, 'c val) py" where
  "perform_effect (Intent n (Some (Performer use fin))) dispatcher b =
     frame (\<lambda>st.
       (case use of
          None \<Rightarrow> (fin, st)
        | Some (Succeed v) \<Rightarrow> (fin, snd (succeed b v st))
        | Some (Fail v) \<Rightarrow> (fin, snd (fail b v st))))"
| "perform_effect i dispatcher b = (\<lambda>st. (Inl (AttributeError ''perform_effect''), st))"

text \<open>\<open>synchronous_performer(func)\<close>: the wrapped method puts the value \<open>func\<close> returns
  into the box, or the \<open>sys.exc_info()\<close> of what it raises, and returns \<open>None\<close>.\<close>

definition synchronous_performer :: "'c exc + 'c val \<Rightarrow> 'c performer" where
  "synchronous_performer func =
     (case func of
        Inr v \<Rightarrow> Performer (Some (Succeed v)) (Inr PyNone)
      | Inl x \<Rightarrow> Performer (Some (Fail (ExcInfo x))) (Inr PyNone))"

text \<open>\<open>dispatch_method(intent, dispatcher, box)\<close> hands \<open>default_dispatcher\<close> to the
  method whatever its \<open>dispatcher\<close> argument is, and raises when there is no method.\<close>

definition dispatch_method :: "'c intent \<Rightarrow> dispatcher_ref \<Rightarrow> 'c box \<Rightarrow> ('c, 'c val) py" where
  "dispatch_method i dispatcher b =
     frame (\<lambda>st.
       if hasattr_perform_effect i then perform_effect i Default_dispatcher b st
       else (Inl (NoEffectHandlerError i), st))"

text \<open>A Python call binds the positional arguments to the parameters of
  \<open>def dispatch_method(intent, dispatcher, box)\<close>; with another number of arguments the
  call raises \<open>TypeError\<close> before the body runs.\<close>

datatype 'c pyarg = Arg_intent "'c intent" | Arg_dispatcher dispatcher_ref | Arg_box "'c box"

definition call_dispatch_method :: "'c pyarg list \<Rightarrow> ('c, 'c val) py" where
  "call_dispatch_method args =
     (case args of
        [Arg_intent i, Arg_dispatcher d, Arg_box b] \<Rightarrow> dispatch_method i d b
      | _ \<Rightarrow> (\<lambda>st. (Inl (TypeError ''dispatch_method() takes exactly 3 arguments''), st)))"

definition default_dispatcher :: "'c intent \<Rightarrow> 'c box \<Rightarrow> ('c, 'c val) py" where
  "default_dispatcher i b =
     frame (call_dispatch_method [Arg_intent i, Arg_dispatcher Default_dispatcher, Arg_box b])"

section \<open>The perform algorithm\<close>

text \<open>
  A name cannot start with an underscore here: \<open>_guard\<close> is \<open>guard\<close>,
  \<open>_run_callbacks\<close> is \<open>run_callbacks\<close> and \<open>_perform\<close>, the closure inside
  \<open>perform\<close>, is \<open>perform'\<close> with the dispatcher as a parameter.
\<close>

text \<open>\<open>_guard(f, value)\<close>: run the continuation; a raise becomes a failure result carrying
  \<open>sys.exc_info()\<close>.  The call of \<open>f\<close> is recorded in \<open>invoked\<close>.\<close>

definition invoke :: "'c callable \<Rightarrow> 'c \<Rightarrow> 'c val \<Rightarrow> ('c, 'c val) py" where
  "invoke call f v = frame (\<lambda>st. (call f v, st\<lparr>invoked := invoked st @ [(f, v)]\<rparr>))"

definition guard :: "'c callable \<Rightarrow> 'c \<Rightarrow> 'c val \<Rightarrow> ('c, 'c result) py" where
  "guard call f v =
     frame (\<lambda>st.
       (case invoke call f v st of
          (Inr r, st') \<Rightarrow> (Inr (False, r), st')
        | (Inl x, st') \<Rightarrow> (Inr (True, ExcInfo x), st')))"

text \<open>\<open>Effect.__init__\<close> and the class method \<open>Effect.with_callbacks\<close>, on values.\<close>

definition Effect_init :: "pyclass \<Rightarrow> 'c intent \<Rightarrow> ('c, 'c effect) py" where
  "Effect_init k i = frame (\<lambda>st. (Inr (EffectObj k i []), st))"

definition with_callbacks :: "pyclass \<Rightarrow> 'c intent \<Rightarrow> 'c chain \<Rightarrow> ('c, 'c effect) py" where
  "with_callbacks k i cbs =
     frame (\<lambda>st.
       (case Effect_init k i st of
          (Inr eff, st') \<Rightarrow> (Inr (EffectObj (klass eff) (intent eff) cbs), st')
        | (Inl x, st') \<Rightarrow> (Inl x, st')))"

definition run_callbacks :: "'c callable \<Rightarrow> 'c chain \<Rightarrow> 'c result \<Rightarrow> ('c, unit) py" where
  "run_callbacks call chain result =
     frame (\<lambda>st.
       (case result of (is_error, value) \<Rightarrow>
          (case type_is_Effect value of
             Some e \<Rightarrow>
               (case with_callbacks Effect_class (intent e) (callbacks e @ chain) st of
                  (Inr spliced, st') \<Rightarrow> bounce (T_perform spliced) st'
                | (Inl x, st') \<Rightarrow> (Inl x, st'))
           | None \<Rightarrow>
               if chain = [] then (Inr (), st)
               else
                 (case select (hd chain) is_error of
                    Some cb \<Rightarrow>
                      (case guard call cb value st of
                         (Inr result', st') \<Rightarrow> bounce (T_run_callbacks (tl chain) result') st'
                       | (Inl x, st') \<Rightarrow> (Inl x, st'))
                  | None \<Rightarrow> bounce (T_run_callbacks (tl chain) result) st))))"

type_synonym 'c dispatcher = "'c intent \<Rightarrow> 'c box \<Rightarrow> ('c, 'c val) py"

definition perform' :: "'c dispatcher \<Rightarrow> 'c effect \<Rightarrow> ('c, unit) py" where
  "perform' dispatcher eff =
     frame (\<lambda>st.
       (case dispatcher (intent eff) \<lparr>box_more = Lambda_more eff\<rparr> st of
          (Inr v, st') \<Rightarrow> (Inr (), st')
        | (Inl x, st') \<Rightarrow> (Inl x, st')))"

text \<open>Calling a bounced function with its arguments.  The lambda of \<open>_perform\<close> calls
  \<open>_run_callbacks\<close> with the callbacks of the effect it closes over.\<close>

fun run_thunk :: "'c callable \<Rightarrow> 'c dispatcher \<Rightarrow> 'c thunk \<Rightarrow> ('c, unit) py" where
  "run_thunk call dispatcher (T_perform eff) = perform' dispatcher eff"
| "run_thunk call dispatcher (T_more (Lambda_more eff) result) =
     frame (run_callbacks call (callbacks eff) result)"
| "run_thunk call dispatcher (T_run_callbacks chain result) = run_callbacks call chain result"

text \<open>
  Modelled from the spec: the trampoline of \<open>effect/continuation.py\<close>, which is not among
  the sources.  Spec 4.1: it "executes a designated entry step function with given
  arguments", runs every bounced step from "an iterative loop", and "terminates when no
  further bounce is scheduled".  Each step gets a bouncer with an empty \<open>work\<close> slot; a
  step that raises ends the loop with that exception, since the trampoline has "no
  knowledge of effects, intents, or callbacks" and nothing in it handles one.  The loop may
  run forever, so its result is an option.
\<close>

partial_function (option) trampoline_loop ::
  "'c callable \<Rightarrow> 'c dispatcher \<Rightarrow> 'c thunk \<Rightarrow> 'c machine \<Rightarrow>
   (('c exc + unit) \<times> 'c machine) option" where
  "trampoline_loop call dispatcher f st =
     (case run_thunk call dispatcher f (st\<lparr>work := None\<rparr>) of
        (Inl x, st') \<Rightarrow> Some (Inl x, st')
      | (Inr u, st') \<Rightarrow>
          (case work st' of
             None \<Rightarrow> Some (Inr (), st')
           | Some g \<Rightarrow> trampoline_loop call dispatcher g st'))"

declare trampoline_loop.simps [code]

definition trampoline ::
  "'c callable \<Rightarrow> 'c dispatcher \<Rightarrow> 'c thunk \<Rightarrow> 'c machine \<Rightarrow>
   (('c exc + unit) \<times> 'c machine) option" where
  "trampoline call dispatcher f = frame_opt (trampoline_loop call dispatcher f)"

text \<open>\<open>perform(effect, dispatcher)\<close>: returns \<open>None\<close> (here \<open>Inr ()\<close>) or raises; \<open>None\<close>
  of the option means that the call never returns.\<close>

definition perform ::
  "'c callable \<Rightarrow> 'c dispatcher \<Rightarrow> 'c effect \<Rightarrow> 'c machine \<Rightarrow>
   (('c exc + unit) \<times> 'c machine) option" where
  "perform call dispatcher eff = frame_opt (trampoline call dispatcher (T_perform eff))"

section \<open>The Twisted dispatcher\<close>

text \<open>\<open>deferred_to_box(d, box)\<close>: \<open>d.addCallbacks\<close> runs the matching callback at once
  when the Deferred has fired and keeps both for later otherwise.  The frames that
  Twisted itself opens are not counted.\<close>

definition deferred_to_box :: "'c val \<Rightarrow> 'c box \<Rightarrow> ('c, unit) py" where
  "deferred_to_box d b =
     frame (\<lambda>st.
       (case d of
          Deferred (Some (Inr v)) \<Rightarrow> succeed b v st
        | Deferred (Some (Inl x)) \<Rightarrow> frame (fail b (FailureTuple x)) st
        | Deferred None \<Rightarrow> (Inr (), st)
        | _ \<Rightarrow> (Inl (AttributeError ''addCallbacks''), st)))"

text \<open>\<open>twisted_dispatcher(intent, box)\<close>.  \<open>perform_parallel\<close> runs on Twisted's
  \<open>gatherResults\<close> and is a parameter here.  The \<open>try\<close> calls \<open>dispatch_method\<close> with
  two arguments, \<open>intent\<close> and \<open>twisted_dispatcher\<close>; the bare \<open>except\<close> catches
  whatever the call raises.  The function returns \<open>None\<close>.\<close>

definition twisted_dispatcher ::
  "('c intent \<Rightarrow> dispatcher_ref \<Rightarrow> 'c box \<Rightarrow> ('c, unit) py) \<Rightarrow> 'c intent \<Rightarrow> 'c box \<Rightarrow> ('c, 'c val) py" where
  "twisted_dispatcher perform_parallel i b =
     frame (\<lambda>st.
       (case
          (if type_is_ParallelEffects i then perform_parallel i Twisted_dispatcher b st
           else
             (case call_dispatch_method [Arg_intent i, Arg_dispatcher Twisted_dispatcher] st of
                (Inl x, st') \<Rightarrow> fail b (ExcInfo x) st'
              | (Inr result, st') \<Rightarrow>
                  if isinstance_Deferred result then deferred_to_box result b st'
                  else succeed b result st'))
        of (Inr u, st') \<Rightarrow> (Inr PyNone, st')
         | (Inl x, st') \<Rightarrow> (Inl x, st')))"

section \<open>Effect objects in the store\<close>

text \<open>
  The chain-extension methods of class \<open>Effect\<close> are modelled on a store, so that what
  they leave untouched can be stated: an address is an index into the list of allocated
  objects, an \<open>Effect\<close> instance holds its class, its intent and the address of its
  \<open>callbacks\<close> list, and a list object holds the entries.  \<open>None\<close> is the result where
  Python would raise on an object of the wrong kind.
\<close>

type_synonym addr = nat

datatype 'c pyobject =
    Effect_instance pyclass "'c intent" addr
  | List_object "'c chain"

type_synonym 'c heap = "'c pyobject list"

definition lookup :: "'c heap \<Rightarrow> addr \<Rightarrow> 'c pyobject option" where
  "lookup h a = (if a < length h then Some (h ! a) else None)"

definition alloc :: "'c pyobject \<Rightarrow> 'c heap \<Rightarrow> addr \<times> 'c heap" where
  "alloc ob h = (length h, h @ [ob])"

text \<open>\<open>klass(intent)\<close>: a new instance whose \<open>__init__\<close> stores the intent and a new empty
  list.\<close>

definition new_Effect :: "pyclass \<Rightarrow> 'c intent \<Rightarrow> 'c heap \<Rightarrow> addr \<times> 'c heap" where
  "new_Effect k i h =
     (case alloc (List_object []) h of (l, h1) \<Rightarrow> alloc (Effect_instance k i l) h1)"

text \<open>\<open>eff.callbacks = callbacks\<close>.\<close>

definition set_callbacks :: "addr \<Rightarrow> addr \<Rightarrow> 'c heap \<Rightarrow> 'c heap" where
  "set_callbacks eff l h =
     (case lookup h eff of
        Some (Effect_instance k i old) \<Rightarrow> h[eff := Effect_instance k i l]
      | _ \<Rightarrow> h)"

definition store_with_callbacks ::
  "pyclass \<Rightarrow> 'c intent \<Rightarrow> addr \<Rightarrow> 'c heap \<Rightarrow> addr \<times> 'c heap" where
  "store_with_callbacks k i cbs h =
     (case new_Effect k i h of (eff, h1) \<Rightarrow> (eff, set_callbacks eff cbs h1))"

text \<open>\<open>self.callbacks + [(success, error)]\<close> builds a new list object.\<close>

definition on :: "addr \<Rightarrow> 'c option \<Rightarrow> 'c option \<Rightarrow> 'c heap \<Rightarrow> (addr \<times> 'c heap) option" where
  "on self success error h =
     (case lookup h self of
        Some (Effect_instance k i l) \<Rightarrow>
          (case lookup h l of
             Some (List_object cs) \<Rightarrow>
               (case alloc (List_object (cs @ [(success, error)])) h of
                  (l', h1) \<Rightarrow> Some (store_with_callbacks Effect_class i l' h1))
           | _ \<Rightarrow> None)
      | _ \<Rightarrow> None)"

definition on_success :: "addr \<Rightarrow> 'c option \<Rightarrow> 'c heap \<Rightarrow> (addr \<times> 'c heap) option" where
  "on_success self callback = on self callback None"

definition on_error :: "addr \<Rightarrow> 'c option \<Rightarrow> 'c heap \<Rightarrow> (addr \<times> 'c heap) option" where
  "on_error self callback = on self None callback"

definition after :: "addr \<Rightarrow> 'c option \<Rightarrow> 'c heap \<Rightarrow> (addr \<times> 'c heap) option" where
  "after self callback = on self callback callback"

text \<open>The value an address stands for: the \<open>Effect\<close> that the engine reads there.\<close>

definition effect_at :: "'c heap \<Rightarrow> addr \<Rightarrow> 'c effect option" where
  "effect_at h a =
     (case lookup h a of
        Some (Effect_instance k i l) \<Rightarrow>
          (case lookup h l of
             Some (List_object cs) \<Rightarrow> Some (EffectObj k i cs)
           | _ \<Rightarrow> None)
      | _ \<Rightarrow> None)"

text \<open>
  What a chain-extension method must have done, given the store before, the receiver, the
  entry to add and the result: the result is the address of an instance of class
  \<open>Effect\<close> that was not allocated before, with the receiver's intent and the receiver's
  entries followed by the new one; every object that was in the store is as it was, and so
  the receiver still stands for the same Effect.
\<close>

definition extended ::
  "'c heap \<Rightarrow> addr \<Rightarrow> 'c entry \<Rightarrow> (addr \<times> 'c heap) option \<Rightarrow> bool" where
  "extended h self entry res =
     (case (effect_at h self, res) of
        (Some e, Some (r, h')) \<Rightarrow>
          effect_at h' r = Some (EffectObj Effect_class (intent e) (callbacks e @ [entry])) \<and>
          length h \<le> r \<and>
          take (length h) h' = h \<and>
          effect_at h' self = Some e
      | _ \<Rightarrow> False)"

section \<open>Sample continuations\<close>

text \<open>Three kinds of callables for concrete runs: \<open>lambda x: x + 1\<close>, a function that
  returns a fixed value, and a function that raises.\<close>

datatype cont = Add_one | Return "cont val" | Throw string

fun apply_cont :: "cont \<Rightarrow> cont val \<Rightarrow> cont exc + cont val" where
  "apply_cont Add_one (PyInt n) = Inr (PyInt (n + 1))"
| "apply_cont Add_one v = Inl (TypeError ''unsupported operand type(s) for +'')"
| "apply_cont (Return r) v = Inr r"
| "apply_cont (Throw m) v = Inl (Exception m)"

text \<open>The state in which a top-level call of \<open>perform\<close> starts.\<close>

definition start :: "'c machine" where
  "start = \<lparr>work = None, invoked = [], depth = 0, peak = 0\<rparr>"

text \<open>
  A run of success continuations \<open>cs\<close>, one after the other, from the value \<open>v\<close>: the
  calls made and the value that comes out at the end; \<open>None\<close> when one of them raises or
  returns an \<open>Effect\<close>.  It is the reference against which the engine is compared.
\<close>

fun pipeline :: "'c callable \<Rightarrow> 'c list \<Rightarrow> 'c val \<Rightarrow> (('c \<times> 'c val) list \<times> 'c val) option" where
  "pipeline call [] v = Some ([], v)"
| "pipeline call (c # cs) v =
     (case call c v of
        Inl x \<Rightarrow> None
      | Inr r \<Rightarrow>
          (case type_is_Effect r of
             Some e \<Rightarrow> None
           | None \<Rightarrow>
               (case pipeline call cs r of
                  None \<Rightarrow> None
                | Some (tr, w) \<Rightarrow> Some ((c, v) # tr, w))))"

text \<open>
  Where the loop stands after \<open>n\<close> steps: the function that is to be called next and the
  state, or \<open>None\<close> when the loop has ended before (a step raised or bounced nothing).
\<close>

fun reach ::
  "nat \<Rightarrow> 'c callable \<Rightarrow> 'c dispatcher \<Rightarrow> 'c thunk \<Rightarrow> 'c machine \<Rightarrow>
   ('c thunk \<times> 'c machine) option" where
  "reach 0 call dispatcher f st = Some (f, st)"
| "reach (Suc n) call dispatcher f st =
     (case run_thunk call dispatcher f (st\<lparr>work := None\<rparr>) of
        (Inl x, st') \<Rightarrow> None
      | (Inr u, st') \<Rightarrow>
          (case work st' of
             None \<Rightarrow> None
           | Some g \<Rightarrow> reach n call dispatcher g st'))"

text \<open>
  A failure result at the end of the chain: the next call is \<open>_run_callbacks\<close> (bounced
  by itself, or called by the box's lambda) with an empty chain and a result tagged as a
  failure whose value is not an \<open>Effect\<close>.  \<open>Some v\<close> gives the failure.
\<close>

fun unhandled_failure :: "'c thunk \<Rightarrow> 'c val option" where
  "unhandled_failure (T_run_callbacks chain (is_error, v)) =
     (if chain = [] \<and> is_error \<and> type_is_Effect v = None then Some v else None)"
| "unhandled_failure (T_more (Lambda_more eff) (is_error, v)) =
     (if callbacks eff = [] \<and> is_error \<and> type_is_Effect v = None then Some v else None)"
| "unhandled_failure (T_perform eff) = None"

text \<open>The chain that \<open>on_success\<close> builds from the continuations \<open>cs\<close>.\<close>

definition success_chain :: "'c list \<Rightarrow> 'c chain" where
  "success_chain cs = map (\<lambda>c. (Some c, None)) cs"

text \<open>A sample Effect for a continuation to return: its intent succeeds with 10 and it has
  two success continuations of its own.\<close>

definition inner_effect :: "cont effect" where
  "inner_effect =
     EffectObj Effect_class (Intent ''inner'' (Some (Performer (Some (Succeed (PyInt 10))) (Inr PyNone))))
       (success_chain [Add_one, Return (PyStr ''d2'')])"

text \<open>An intent whose method is a \<open>synchronous_performer\<close> returning 1, and a store with
  one Effect at address 1 whose callbacks are the list at address 0.\<close>

definition read_intent :: "cont intent" where
  "read_intent = Intent ''read'' (Some (synchronous_performer (Inr (PyInt 1))))"

definition sample_heap :: "cont heap" where
  "sample_heap =
     [List_object [(Some Add_one, None)],
      Effect_instance Effect_class (Intent ''read'' None) 0]"

text \<open>\<open>Effect(one).on_error(lambda e: 'skipped').on_success(throw)\<close>: the intent succeeds
  with 1, the first entry is passed and the success continuation of the second raises.\<close>

definition one_then_throw :: "cont effect" where
  "one_then_throw =
     EffectObj Effect_class (Intent ''one'' (Some (synchronous_performer (Inr (PyInt 1)))))
       [(None, Some (Return (PyStr ''skipped''))), (Some (Throw ''boom''), None)]"

section \<open>Single steps\<close>

lemma bounce_eq:
  "bounce t st = (Inr (), st\<lparr>work := Some t, peak := max (peak st) (Suc (depth st))\<rparr>)"
  by (simp add: bounce_def frame_def enter_def leave_def)

lemma succeed_eq:
  "succeed b v st =
     (Inr (), st\<lparr>work := Some (T_more (box_more b) (False, v)),
                 peak := max (peak st) (depth st + 2)\<rparr>)"
  by (simp add: succeed_def bounce_def frame_def enter_def leave_def max.assoc)

lemma fail_eq:
  "fail b v st =
     (Inr (), st\<lparr>work := Some (T_more (box_more b) (True, v)),
                 peak := max (peak st) (depth st + 2)\<rparr>)"
  by (simp add: fail_def bounce_def frame_def enter_def leave_def max.assoc)

lemma guard_eq:
  "guard call f v st =
     (Inr (case call f v of Inr r \<Rightarrow> (False, r) | Inl x \<Rightarrow> (True, ExcInfo x)),
      st\<lparr>invoked := invoked st @ [(f, v)], peak := max (peak st) (depth st + 2)\<rparr>)"
  by (simp add: guard_def invoke_def frame_def enter_def leave_def max.assoc split: sum.splits)

lemma with_callbacks_eq:
  "with_callbacks k i cbs st =
     (Inr (EffectObj k i cbs), st\<lparr>peak := max (peak st) (depth st + 2)\<rparr>)"
  by (simp add: with_callbacks_def Effect_init_def frame_def enter_def leave_def max.assoc)

lemma run_callbacks_splice:
  "type_is_Effect v = Some e \<Longrightarrow>
   run_callbacks call chain (is_error, v) st =
     (Inr (),
      st\<lparr>work := Some (T_perform (EffectObj Effect_class (intent e) (callbacks e @ chain))),
         peak := max (peak st) (depth st + 3)\<rparr>)"
  by (simp add: run_callbacks_def with_callbacks_eq bounce_eq frame_def enter_def leave_def
      max.assoc)

lemma run_callbacks_exhausted:
  "type_is_Effect v = None \<Longrightarrow>
   run_callbacks call [] (is_error, v) st =
     (Inr (), st\<lparr>peak := max (peak st) (depth st + 1)\<rparr>)"
  by (simp add: run_callbacks_def frame_def enter_def leave_def)

lemma run_callbacks_absent:
  "type_is_Effect v = None \<Longrightarrow> select entry is_error = None \<Longrightarrow>
   run_callbacks call (entry # rest) (is_error, v) st =
     (Inr (), st\<lparr>work := Some (T_run_callbacks rest (is_error, v)),
                 peak := max (peak st) (depth st + 2)\<rparr>)"
  by (simp add: run_callbacks_def bounce_eq frame_def enter_def leave_def max.assoc)

lemma run_callbacks_present:
  "type_is_Effect v = None \<Longrightarrow> select entry is_error = Some f \<Longrightarrow>
   run_callbacks call (entry # rest) (is_error, v) st =
     (Inr (),
      st\<lparr>work := Some (T_run_callbacks rest
                 (case call f v of Inr r \<Rightarrow> (False, r) | Inl x \<Rightarrow> (True, ExcInfo x))),
         invoked := invoked st @ [(f, v)],
         peak := max (peak st) (depth st + 3)\<rparr>)"
  by (simp add: run_callbacks_def guard_eq bounce_eq frame_def enter_def leave_def max.assoc)

lemma dispatch_no_handler:
  "\<not> hasattr_perform_effect i \<Longrightarrow>
   default_dispatcher i b st =
     (Inl (NoEffectHandlerError i), st\<lparr>peak := max (peak st) (depth st + 2)\<rparr>)"
  by (simp add: default_dispatcher_def call_dispatch_method_def dispatch_method_def
      frame_def enter_def leave_def max.assoc)

lemma perform_effect_eq:
  "perform_effect (Intent n (Some (Performer use fin))) d b st =
     (fin,
      (case use of
         None \<Rightarrow> st\<lparr>peak := max (peak st) (depth st + 1)\<rparr>
       | Some (Succeed v) \<Rightarrow>
           st\<lparr>work := Some (T_more (box_more b) (False, v)),
              peak := max (peak st) (depth st + 3)\<rparr>
       | Some (Fail v) \<Rightarrow>
           st\<lparr>work := Some (T_more (box_more b) (True, v)),
              peak := max (peak st) (depth st + 3)\<rparr>))"
  by (simp add: succeed_eq fail_eq frame_def enter_def leave_def max.assoc
      split: option.splits box_call.splits)

lemma dispatch_performer:
  "default_dispatcher (Intent n (Some (Performer use fin))) b st =
     (fin,
      (case use of
         None \<Rightarrow> st\<lparr>peak := max (peak st) (depth st + 3)\<rparr>
       | Some (Succeed v) \<Rightarrow>
           st\<lparr>work := Some (T_more (box_more b) (False, v)),
              peak := max (peak st) (depth st + 5)\<rparr>
       | Some (Fail v) \<Rightarrow>
           st\<lparr>work := Some (T_more (box_more b) (True, v)),
              peak := max (peak st) (depth st + 5)\<rparr>))"
  by (simp add: default_dispatcher_def call_dispatch_method_def dispatch_method_def
      perform_effect_eq frame_def enter_def leave_def max.assoc
      del: perform_effect.simps split: option.splits box_call.splits)

lemma perform'_no_handler:
  "\<not> hasattr_perform_effect (intent eff) \<Longrightarrow>
   perform' default_dispatcher eff st =
     (Inl (NoEffectHandlerError (intent eff)), st\<lparr>peak := max (peak st) (depth st + 3)\<rparr>)"
  by (simp add: perform'_def dispatch_no_handler frame_def enter_def leave_def max.assoc)

section \<open>The loop\<close>

lemma trampoline_loop_raise:
  "run_thunk call d f (st\<lparr>work := None\<rparr>) = (Inl x, st') \<Longrightarrow>
   trampoline_loop call d f st = Some (Inl x, st')"
  by (subst trampoline_loop.simps) simp

lemma trampoline_loop_done:
  "run_thunk call d f (st\<lparr>work := None\<rparr>) = (Inr u, st') \<Longrightarrow> work st' = None \<Longrightarrow>
   trampoline_loop call d f st = Some (Inr (), st')"
  by (subst trampoline_loop.simps) simp

lemma trampoline_loop_bounce:
  "run_thunk call d f (st\<lparr>work := None\<rparr>) = (Inr u, st') \<Longrightarrow> work st' = Some g \<Longrightarrow>
   trampoline_loop call d f st = trampoline_loop call d g st'"
  by (subst trampoline_loop.simps) simp

section \<open>Frames\<close>

lemma perform'_performer:
  "intent eff = Intent n (Some (Performer use (Inr r))) \<Longrightarrow>
   perform' default_dispatcher eff st =
     (Inr (),
      (case use of
         None \<Rightarrow> st\<lparr>peak := max (peak st) (depth st + 4)\<rparr>
       | Some (Succeed v) \<Rightarrow>
           st\<lparr>work := Some (T_more (Lambda_more eff) (False, v)),
              peak := max (peak st) (depth st + 6)\<rparr>
       | Some (Fail v) \<Rightarrow>
           st\<lparr>work := Some (T_more (Lambda_more eff) (True, v)),
              peak := max (peak st) (depth st + 6)\<rparr>))"
  by (simp add: perform'_def dispatch_performer frame_def enter_def leave_def max.assoc
      split: option.splits box_call.splits)

lemma run_thunk_frames:
  assumes "run_thunk call default_dispatcher f st = (r, st')"
  shows "depth st' = depth st \<and> peak st \<le> peak st' \<and> peak st' \<le> max (peak st) (depth st + 6)"
proof (cases f)
  case (T_perform eff)
  show ?thesis
  proof (cases "hasattr_perform_effect (intent eff)")
    case False
    with assms T_perform show ?thesis
      by (auto simp: perform'_no_handler)
  next
    case True
    then obtain n use fin where i: "intent eff = Intent n (Some (Performer use fin))"
      by (metis hasattr_perform_effect.elims(2) performer.exhaust)
    with assms T_perform show ?thesis
      by (auto simp: perform'_def dispatch_performer frame_def enter_def leave_def
          split: option.splits box_call.splits sum.splits)
  qed
next
  case (T_more m result)
  obtain eff where m: "m = Lambda_more eff" by (cases m)
  obtain b v where res: "result = (b, v)" by (cases result)
  show ?thesis
  proof (cases "type_is_Effect v")
    case (Some e)
    with assms T_more m res show ?thesis
      by (auto simp: run_callbacks_splice frame_def enter_def leave_def)
  next
    case None
    show ?thesis
    proof (cases "callbacks eff")
      case Nil
      with assms T_more m res None show ?thesis
        by (auto simp: run_callbacks_exhausted frame_def enter_def leave_def)
    next
      case (Cons entry rest)
      with assms T_more m res None show ?thesis
        by (cases "select entry b")
          (auto simp: run_callbacks_absent run_callbacks_present frame_def enter_def leave_def)
    qed
  qed
next
  case (T_run_callbacks chain result)
  obtain b v where res: "result = (b, v)" by (cases result)
  show ?thesis
  proof (cases "type_is_Effect v")
    case (Some e)
    with assms T_run_callbacks res show ?thesis
      by (auto simp: run_callbacks_splice)
  next
    case None
    show ?thesis
    proof (cases chain)
      case Nil
      with assms T_run_callbacks res None show ?thesis
        by (auto simp: run_callbacks_exhausted)
    next
      case (Cons entry rest)
      with assms T_run_callbacks res None show ?thesis
        by (cases "select entry b")
          (auto simp: run_callbacks_absent run_callbacks_present)
    qed
  qed
qed

lemma trampoline_loop_frames_gen:
  assumes "trampoline_loop call d f st = Some out"
  shows "d = default_dispatcher \<longrightarrow>
     depth (snd out) = depth st \<and> peak st \<le> peak (snd out) \<and>
     peak (snd out) \<le> max (peak st) (depth st + 6)"
proof (rule trampoline_loop.raw_induct
    [where P = "\<lambda>call d f st out. d = default_dispatcher \<longrightarrow>
       depth (snd out) = depth st \<and> peak st \<le> peak (snd out) \<and>
       peak (snd out) \<le> max (peak st) (depth st + 6)"])
  show "trampoline_loop call d f st = Some out" by fact
next
  fix loop :: "'a callable \<Rightarrow> 'a dispatcher \<Rightarrow> 'a thunk \<Rightarrow> 'a machine \<Rightarrow>
               (('a exc + unit) \<times> 'a machine) option"
  fix call d f st out
  assume IH: "\<And>d f st b y. loop d f st b = Some y \<Longrightarrow>
      f = default_dispatcher \<longrightarrow>
        depth (snd y) = depth b \<and> peak b \<le> peak (snd y) \<and>
        peak (snd y) \<le> max (peak b) (depth b + 6)"
  assume body: "(case run_thunk call d f (st\<lparr>work := None\<rparr>) of
      (Inl x, st') \<Rightarrow> Some (Inl x, st')
    | (Inr u, st') \<Rightarrow>
        (case work st' of None \<Rightarrow> Some (Inr (), st') | Some g \<Rightarrow> loop call d g st')) =
      Some out"
  show "d = default_dispatcher \<longrightarrow>
     depth (snd out) = depth st \<and> peak st \<le> peak (snd out) \<and>
     peak (snd out) \<le> max (peak st) (depth st + 6)"
  proof
    assume d: "d = default_dispatcher"
    obtain r1 st1 where
      step: "run_thunk call default_dispatcher f (st\<lparr>work := None\<rparr>) = (r1, st1)"
      by (cases "run_thunk call default_dispatcher f (st\<lparr>work := None\<rparr>)")
    from run_thunk_frames [OF step]
    have fr: "depth st1 = depth st" "peak st \<le> peak st1"
      "peak st1 \<le> max (peak st) (depth st + 6)"
      by simp_all
    show "depth (snd out) = depth st \<and> peak st \<le> peak (snd out) \<and>
          peak (snd out) \<le> max (peak st) (depth st + 6)"
    proof (cases r1)
      case (Inl x)
      with body step fr d show ?thesis by auto
    next
      case (Inr u)
      show ?thesis
      proof (cases "work st1")
        case None
        with body step Inr fr d show ?thesis by auto
      next
        case (Some g)
        with body step Inr d have "loop call d g st1 = Some out" by simp
        from IH [OF this] d fr show ?thesis by auto
      qed
    qed
  qed
qed

lemma trampoline_loop_frames:
  "trampoline_loop call default_dispatcher f st = Some out \<Longrightarrow>
   depth (snd out) = depth st \<and> peak st \<le> peak (snd out) \<and>
   peak (snd out) \<le> max (peak st) (depth st + 6)"
  using trampoline_loop_frames_gen [of call default_dispatcher f st out] by simp

lemma perform_frames:
  assumes "perform call default_dispatcher eff st = Some out"
  shows "depth (snd out) = depth st \<and> peak st \<le> peak (snd out) \<and>
         peak (snd out) \<le> max (peak st) (depth st + 8)"
proof -
  from assms obtain r st1 where
    loop: "trampoline_loop call default_dispatcher (T_perform eff) (enter (enter st)) = Some (r, st1)"
    and out: "out = (r, leave (leave st1))"
    by (auto simp: perform_def trampoline_def frame_opt_def split: option.splits)
  from trampoline_loop_frames [OF loop] out show ?thesis
    by (auto simp: enter_def leave_def)
qed

section \<open>Steps of the loop\<close>

lemma loop_cong:
  "run_thunk call d f (st\<lparr>work := None\<rparr>) = run_thunk call d g (st'\<lparr>work := None\<rparr>) \<Longrightarrow>
   trampoline_loop call d f st = trampoline_loop call d g st'"
  by (simp add: trampoline_loop.simps [of call d f st] trampoline_loop.simps [of call d g st'])

lemma step_more:
  "\<exists>st'. trampoline_loop call d (T_more (Lambda_more eff) (b, v)) st =
          trampoline_loop call d (T_run_callbacks (callbacks eff) (b, v)) st' \<and>
        invoked st' = invoked st"
proof (cases "type_is_Effect v")
  case (Some e)
  show ?thesis
    by (rule exI [of _ "st\<lparr>peak := max (peak st) (depth st + 4)\<rparr>"])
      (simp add: loop_cong run_callbacks_splice [OF Some] frame_def enter_def leave_def max.assoc)
next
  case None
  show ?thesis
  proof (cases "callbacks eff")
    case Nil
    show ?thesis
      by (rule exI [of _ "st\<lparr>peak := max (peak st) (depth st + 2)\<rparr>"])
        (simp add: loop_cong Nil run_callbacks_exhausted [OF None] frame_def enter_def leave_def
          max.assoc)
  next
    case (Cons entry rest)
    show ?thesis
    proof (cases "select entry b")
      case no: None
      show ?thesis
        by (rule exI [of _ "st\<lparr>peak := max (peak st) (depth st + 3)\<rparr>"])
          (simp add: loop_cong Cons run_callbacks_absent [OF None no] frame_def enter_def
            leave_def max.assoc)
    next
      case (Some f)
      show ?thesis
        by (rule exI [of _ "st\<lparr>peak := max (peak st) (depth st + 4)\<rparr>"])
          (simp add: loop_cong Cons run_callbacks_present [OF None Some] frame_def enter_def
            leave_def max.assoc)
    qed
  qed
qed

lemma step_perform:
  assumes "intent eff = Intent n (Some (Performer (Some use) (Inr r)))"
  shows "\<exists>st'. trampoline_loop call default_dispatcher (T_perform eff) st =
          trampoline_loop call default_dispatcher
            (T_more (Lambda_more eff)
               (case use of Succeed v \<Rightarrow> (False, v) | Fail v \<Rightarrow> (True, v))) st' \<and>
        invoked st' = invoked st"
proof -
  let ?s = "st\<lparr>work := None\<rparr>"
  obtain u s1 where r: "run_thunk call default_dispatcher (T_perform eff) ?s = (Inr u, s1)"
    and w: "work s1 = Some (T_more (Lambda_more eff)
               (case use of Succeed v \<Rightarrow> (False, v) | Fail v \<Rightarrow> (True, v)))"
    and i: "invoked s1 = invoked st"
    by (cases use) (simp_all add: perform'_performer [OF assms])
  from trampoline_loop_bounce [OF r w] i show ?thesis by blast
qed

lemma step_splice:
  assumes "type_is_Effect v = Some e"
  shows "\<exists>st'. trampoline_loop call d (T_run_callbacks chain (b, v)) st =
          trampoline_loop call d
            (T_perform (EffectObj Effect_class (intent e) (callbacks e @ chain))) st' \<and>
        invoked st' = invoked st"
proof -
  let ?s = "st\<lparr>work := None\<rparr>"
  obtain u s1 where r: "run_thunk call d (T_run_callbacks chain (b, v)) ?s = (Inr u, s1)"
    and w: "work s1 = Some (T_perform (EffectObj Effect_class (intent e) (callbacks e @ chain)))"
    and i: "invoked s1 = invoked st"
    by (simp add: run_callbacks_splice [OF assms])
  from trampoline_loop_bounce [OF r w] i show ?thesis by blast
qed

lemma step_present:
  assumes "type_is_Effect v = None" and "select entry b = Some f"
  shows "\<exists>st'. trampoline_loop call d (T_run_callbacks (entry # rest) (b, v)) st =
          trampoline_loop call d
            (T_run_callbacks rest
               (case call f v of Inr r \<Rightarrow> (False, r) | Inl x \<Rightarrow> (True, ExcInfo x))) st' \<and>
        invoked st' = invoked st @ [(f, v)]"
proof -
  let ?s = "st\<lparr>work := None\<rparr>"
  obtain u s1 where r: "run_thunk call d (T_run_callbacks (entry # rest) (b, v)) ?s = (Inr u, s1)"
    and w: "work s1 = Some (T_run_callbacks rest
               (case call f v of Inr r \<Rightarrow> (False, r) | Inl x \<Rightarrow> (True, ExcInfo x)))"
    and i: "invoked s1 = invoked st @ [(f, v)]"
    by (simp add: run_callbacks_present [OF assms])
  from trampoline_loop_bounce [OF r w] i show ?thesis by blast
qed

lemma step_absent:
  assumes "type_is_Effect v = None" and "select entry b = None"
  shows "\<exists>st'. trampoline_loop call d (T_run_callbacks (entry # rest) (b, v)) st =
          trampoline_loop call d (T_run_callbacks rest (b, v)) st' \<and>
        invoked st' = invoked st"
proof -
  let ?s = "st\<lparr>work := None\<rparr>"
  obtain u s1 where r: "run_thunk call d (T_run_callbacks (entry # rest) (b, v)) ?s = (Inr u, s1)"
    and w: "work s1 = Some (T_run_callbacks rest (b, v))"
    and i: "invoked s1 = invoked st"
    by (simp add: run_callbacks_absent [OF assms])
  from trampoline_loop_bounce [OF r w] i show ?thesis by blast
qed

lemma step_exhausted:
  assumes "type_is_Effect v = None"
  shows "\<exists>st'. trampoline_loop call d (T_run_callbacks [] (b, v)) st = Some (Inr (), st') \<and>
        work st' = None \<and> invoked st' = invoked st"
proof -
  let ?s = "st\<lparr>work := None\<rparr>"
  obtain u s1 where r: "run_thunk call d (T_run_callbacks [] (b, v)) ?s = (Inr u, s1)"
    and w: "work s1 = None"
    and i: "invoked s1 = invoked st"
    by (simp add: run_callbacks_exhausted [OF assms])
  from trampoline_loop_done [OF r w] w i show ?thesis by blast
qed

lemma pipeline_plain:
  "pipeline call cs v = Some (tr, w) \<Longrightarrow> type_is_Effect v = None \<Longrightarrow>
   type_is_Effect w = None \<and> map fst tr = cs"
  by (induction cs arbitrary: v tr) (auto split: sum.splits option.splits)

lemma walk_pipeline:
  "pipeline call cs v = Some (tr, w) \<Longrightarrow> type_is_Effect v = None \<Longrightarrow>
   \<exists>st'. trampoline_loop call d (T_run_callbacks (success_chain cs @ rest) (False, v)) st =
           trampoline_loop call d (T_run_callbacks rest (False, w)) st' \<and>
         invoked st' = invoked st @ tr"
proof (induction cs arbitrary: v tr st)
  case Nil
  then show ?case by (auto simp: success_chain_def)
next
  case (Cons c cs)
  from Cons.prems obtain r tr' where
    c: "call c v = Inr r" and plain: "type_is_Effect r = None"
    and p: "pipeline call cs r = Some (tr', w)" and tr: "tr = (c, v) # tr'"
    by (auto split: sum.splits option.splits)
  from step_present [OF Cons.prems(2), of "(Some c, None)" False c call d
      "success_chain cs @ rest" st] c
  obtain s1 where
    s1: "trampoline_loop call d (T_run_callbacks (success_chain (c # cs) @ rest) (False, v)) st =
         trampoline_loop call d (T_run_callbacks (success_chain cs @ rest) (False, r)) s1"
    and i1: "invoked s1 = invoked st @ [(c, v)]"
    by (auto simp: success_chain_def)
  from Cons.IH [OF p plain, of s1] obtain s2 where
    "trampoline_loop call d (T_run_callbacks (success_chain cs @ rest) (False, r)) s1 =
     trampoline_loop call d (T_run_callbacks rest (False, w)) s2"
    and "invoked s2 = invoked s1 @ tr'"
    by blast
  with s1 i1 tr show ?case by auto
qed

lemma walk_unhandled_failure:
  "\<forall>entry\<in>set chain. snd entry = None \<Longrightarrow> type_is_Effect v = None \<Longrightarrow>
   \<exists>st'. trampoline_loop call d (T_run_callbacks chain (True, v)) st = Some (Inr (), st') \<and>
         work st' = None \<and> invoked st' = invoked st"
proof (induction chain arbitrary: st)
  case Nil
  then show ?case by (simp add: step_exhausted)
next
  case (Cons entry chain)
  from Cons.prems have "select entry True = None" by (cases entry) simp
  from step_absent [OF Cons.prems(2) this, of call d chain st] obtain s1 where
    "trampoline_loop call d (T_run_callbacks (entry # chain) (True, v)) st =
     trampoline_loop call d (T_run_callbacks chain (True, v)) s1"
    and "invoked s1 = invoked st"
    by blast
  moreover from Cons.IH [of s1] Cons.prems obtain s2 where
    "trampoline_loop call d (T_run_callbacks chain (True, v)) s1 = Some (Inr (), s2)"
    and "work s2 = None" and "invoked s2 = invoked s1"
    by auto
  ultimately show ?case by auto
qed

lemma perform_unfold:
  "perform call d eff st =
     (case trampoline_loop call d (T_perform eff) (enter (enter st)) of
        None \<Rightarrow> None
      | Some (r, st') \<Rightarrow> Some (r, leave (leave st')))"
  by (simp add: perform_def trampoline_def frame_opt_def split: option.splits)

section \<open>Whole runs\<close>

lemma success_chain_append:
  "success_chain (xs @ ys) = success_chain xs @ success_chain ys"
  by (simp add: success_chain_def)

lemma success_chain_Cons:
  "success_chain (c # cs) = (Some c, None) # success_chain cs"
  by (simp add: success_chain_def)

lemma perform_success_chain:
  assumes p: "pipeline call cs v0 = Some (tr, w)" and v0: "type_is_Effect v0 = None"
  shows "\<exists>st'. perform call default_dispatcher
                 (EffectObj k (Intent n (Some (Performer (Some (Succeed v0)) (Inr r0))))
                    (success_chain cs)) st =
                 Some (Inr (), st') \<and>
               work st' = None \<and> invoked st' = invoked st @ tr"
proof -
  let ?eff = "EffectObj k (Intent n (Some (Performer (Some (Succeed v0)) (Inr r0))))
                (success_chain cs)"
  let ?s0 = "enter (enter st)"
  from step_perform [of ?eff n "Succeed v0" r0 call ?s0] obtain s1 where
    1: "trampoline_loop call default_dispatcher (T_perform ?eff) ?s0 =
        trampoline_loop call default_dispatcher (T_more (Lambda_more ?eff) (False, v0)) s1"
    and i1: "invoked s1 = invoked ?s0"
    by auto
  from step_more [of call default_dispatcher ?eff False v0 s1] obtain s2 where
    2: "trampoline_loop call default_dispatcher (T_more (Lambda_more ?eff) (False, v0)) s1 =
        trampoline_loop call default_dispatcher (T_run_callbacks (success_chain cs) (False, v0)) s2"
    and i2: "invoked s2 = invoked s1"
    by auto
  from walk_pipeline [OF p v0, of default_dispatcher "[]" s2] obtain s3 where
    3: "trampoline_loop call default_dispatcher (T_run_callbacks (success_chain cs) (False, v0)) s2 =
        trampoline_loop call default_dispatcher (T_run_callbacks [] (False, w)) s3"
    and i3: "invoked s3 = invoked s2 @ tr"
    by auto
  from pipeline_plain [OF p v0] have w: "type_is_Effect w = None" by simp
  from step_exhausted [OF w, of call default_dispatcher False s3] obtain s4 where
    4: "trampoline_loop call default_dispatcher (T_run_callbacks [] (False, w)) s3 =
        Some (Inr (), s4)"
    and w4: "work s4 = None" and i4: "invoked s4 = invoked s3"
    by auto
  from 1 2 3 4 have "perform call default_dispatcher ?eff st = Some (Inr (), leave (leave s4))"
    by (simp add: perform_unfold)
  moreover have "work (leave (leave s4)) = None" "invoked (leave (leave s4)) = invoked st @ tr"
    using w4 i4 i3 i2 i1 by (simp_all add: leave_def enter_def)
  ultimately show ?thesis by blast
qed

lemma perform_flattened:
  assumes p1: "pipeline call pre v0 = Some (tr1, w1)" and v0: "type_is_Effect v0 = None"
    and ci: "call ci w1 = Inr (Obj e')" and k': "klass e' = Effect_class"
    and i': "intent e' = Intent n' (Some (Performer (Some (Succeed v1)) (Inr r1)))"
    and c': "callbacks e' = success_chain ds" and v1: "type_is_Effect v1 = None"
    and p2: "pipeline call (ds @ post) v1 = Some (tr2, w2)"
  shows "\<exists>st'. perform call default_dispatcher
                 (EffectObj k (Intent n (Some (Performer (Some (Succeed v0)) (Inr r0))))
                    (success_chain (pre @ ci # post))) st =
                 Some (Inr (), st') \<and>
               invoked st' = invoked st @ tr1 @ (ci, w1) # tr2 \<and>
               map fst (tr1 @ (ci, w1) # tr2) = pre @ ci # ds @ post"
proof -
  let ?d = "default_dispatcher :: 'a dispatcher"
  let ?eff = "EffectObj k (Intent n (Some (Performer (Some (Succeed v0)) (Inr r0))))
                (success_chain (pre @ ci # post))"
  let ?spliced = "EffectObj Effect_class (intent e') (callbacks e' @ success_chain post)"
  let ?s0 = "enter (enter st)"
  from step_perform [of ?eff n "Succeed v0" r0 call ?s0] obtain s1 where
    1: "trampoline_loop call ?d (T_perform ?eff) ?s0 =
        trampoline_loop call ?d (T_more (Lambda_more ?eff) (False, v0)) s1"
    and i1: "invoked s1 = invoked ?s0"
    by auto
  from step_more [of call ?d ?eff False v0 s1] obtain s2 where
    2: "trampoline_loop call ?d (T_more (Lambda_more ?eff) (False, v0)) s1 =
        trampoline_loop call ?d
          (T_run_callbacks (success_chain pre @ (Some ci, None) # success_chain post) (False, v0)) s2"
    and i2: "invoked s2 = invoked s1"
    by (auto simp: success_chain_append success_chain_Cons)
  from walk_pipeline [OF p1 v0, of ?d "(Some ci, None) # success_chain post" s2] obtain s3 where
    3: "trampoline_loop call ?d
          (T_run_callbacks (success_chain pre @ (Some ci, None) # success_chain post) (False, v0)) s2 =
        trampoline_loop call ?d
          (T_run_callbacks ((Some ci, None) # success_chain post) (False, w1)) s3"
    and i3: "invoked s3 = invoked s2 @ tr1"
    by auto
  from pipeline_plain [OF p1 v0] have w1: "type_is_Effect w1 = None" and m1: "map fst tr1 = pre"
    by simp_all
  from step_present [OF w1, of "(Some ci, None)" False ci call ?d "success_chain post" s3] ci
  obtain s4 where
    4: "trampoline_loop call ?d
          (T_run_callbacks ((Some ci, None) # success_chain post) (False, w1)) s3 =
        trampoline_loop call ?d (T_run_callbacks (success_chain post) (False, Obj e')) s4"
    and i4: "invoked s4 = invoked s3 @ [(ci, w1)]"
    by auto
  from k' have "type_is_Effect (Obj e') = Some e'" by simp
  from step_splice [OF this, of call ?d "success_chain post" False s4] obtain s5 where
    5: "trampoline_loop call ?d (T_run_callbacks (success_chain post) (False, Obj e')) s4 =
        trampoline_loop call ?d (T_perform ?spliced) s5"
    and i5: "invoked s5 = invoked s4"
    by auto
  from step_perform [of ?spliced n' "Succeed v1" r1 call s5] i' obtain s6 where
    6: "trampoline_loop call ?d (T_perform ?spliced) s5 =
        trampoline_loop call ?d (T_more (Lambda_more ?spliced) (False, v1)) s6"
    and i6: "invoked s6 = invoked s5"
    by auto
  from step_more [of call ?d ?spliced False v1 s6] c' obtain s7 where
    7: "trampoline_loop call ?d (T_more (Lambda_more ?spliced) (False, v1)) s6 =
        trampoline_loop call ?d (T_run_callbacks (success_chain (ds @ post) @ []) (False, v1)) s7"
    and i7: "invoked s7 = invoked s6"
    by (auto simp: success_chain_append)
  from walk_pipeline [OF p2 v1, of ?d "[]" s7] obtain s8 where
    8: "trampoline_loop call ?d (T_run_callbacks (success_chain (ds @ post) @ []) (False, v1)) s7 =
        trampoline_loop call ?d (T_run_callbacks [] (False, w2)) s8"
    and i8: "invoked s8 = invoked s7 @ tr2"
    by auto
  from pipeline_plain [OF p2 v1] have w2: "type_is_Effect w2 = None"
    and m2: "map fst tr2 = ds @ post"
    by simp_all
  from step_exhausted [OF w2, of call ?d False s8] obtain s9 where
    9: "trampoline_loop call ?d (T_run_callbacks [] (False, w2)) s8 = Some (Inr (), s9)"
    and i9: "invoked s9 = invoked s8"
    by auto
  from 1 2 3 4 5 6 7 8 9
  have "perform call ?d ?eff st = Some (Inr (), leave (leave s9))"
    by (simp add: perform_unfold)
  moreover have "invoked (leave (leave s9)) = invoked st @ tr1 @ (ci, w1) # tr2"
    using i9 i8 i7 i6 i5 i4 i3 i2 i1 by (simp add: leave_def enter_def)
  ultimately show ?thesis using m1 m2 by auto
qed

lemma pipeline_add_one:
  "pipeline apply_cont (replicate n Add_one) (PyInt k) =
     Some (map (\<lambda>i. (Add_one, PyInt (k + int i))) [0..<n], PyInt (k + int n))"
proof (induction n arbitrary: k)
  case 0
  show ?case by simp
next
  case (Suc n)
  have "map (\<lambda>i. (Add_one, PyInt (k + int i))) [0..<Suc n] =
        (Add_one, PyInt k) # map (\<lambda>i. (Add_one :: cont, PyInt (k + 1 + int i) :: cont val)) [0..<n]"
    by (simp add: upt_conv_Cons map_Suc_upt [symmetric] del: upt_Suc)
  with Suc.IH [of "k + 1"] show ?case
    by (simp del: upt_Suc add: algebra_simps)
qed

section \<open>The store and the Twisted dispatcher\<close>

lemma on_eq:
  assumes "lookup h self = Some (Effect_instance k i l)" and "lookup h l = Some (List_object cs)"
  shows "on self s e h =
           Some (Suc (Suc (length h)),
                 h @ [List_object (cs @ [(s, e)]), List_object [],
                      Effect_instance Effect_class i (length h)])"
  using assms
  by (simp add: on_def alloc_def store_with_callbacks_def new_Effect_def set_callbacks_def
      lookup_def nth_append list_update_append)

lemma effect_at_cases:
  "effect_at h a = Some e \<Longrightarrow>
   \<exists>l. lookup h a = Some (Effect_instance (klass e) (intent e) l) \<and>
       lookup h l = Some (List_object (callbacks e))"
  by (auto simp: effect_at_def split: option.splits pyobject.splits)

lemma on_extended:
  assumes "effect_at h self = Some e0"
  shows "extended h self (s, e) (on self s e h)"
proof -
  from effect_at_cases [OF assms] obtain l where
    a: "lookup h self = Some (Effect_instance (klass e0) (intent e0) l)"
    and b: "lookup h l = Some (List_object (callbacks e0))"
    by blast
  from a b have lt: "self < length h" "l < length h"
    by (auto simp: lookup_def split: if_splits)
  from a b lt show ?thesis
    by (simp add: extended_def assms on_eq [OF a b] effect_at_def lookup_def nth_append)
qed

lemma twisted_dispatcher_arity:
  "\<not> type_is_ParallelEffects i \<Longrightarrow>
   twisted_dispatcher pp i b st =
     (Inr PyNone,
      st\<lparr>work := Some (T_more (box_more b)
                 (True, ExcInfo (TypeError ''dispatch_method() takes exactly 3 arguments''))),
         peak := max (peak st) (depth st + 3)\<rparr>)"
  by (simp add: twisted_dispatcher_def call_dispatch_method_def fail_eq frame_def enter_def
      leave_def max.assoc)

section \<open>Failures at the end of the chain\<close>

lemma reach_loop:
  "reach n call d f st = Some (g, s) \<Longrightarrow>
   trampoline_loop call d f st = trampoline_loop call d g s"
proof (induction n arbitrary: f st)
  case 0
  then show ?case by simp
next
  case (Suc n)
  obtain r st1 where step: "run_thunk call d f (st\<lparr>work := None\<rparr>) = (r, st1)"
    by (cases "run_thunk call d f (st\<lparr>work := None\<rparr>)")
  with Suc.prems obtain u h where r: "r = Inr u" and w: "work st1 = Some h"
    and rest: "reach n call d h st1 = Some (g, s)"
    by (auto split: sum.splits option.splits)
  from step r have "run_thunk call d f (st\<lparr>work := None\<rparr>) = (Inr u, st1)" by simp
  from trampoline_loop_bounce [OF this w] Suc.IH [OF rest] show ?case by simp
qed

lemma unhandled_failure_step:
  assumes "unhandled_failure g = Some v"
  shows "\<exists>s'. run_thunk call d g (s\<lparr>work := None\<rparr>) = (Inr (), s') \<and>
              work s' = None \<and> invoked s' = invoked s"
proof (cases g)
  case (T_perform eff)
  with assms show ?thesis by simp
next
  case (T_more m result)
  obtain eff where m: "m = Lambda_more eff" by (cases m)
  obtain b w where res: "result = (b, w)" by (cases result)
  from assms T_more m res have "callbacks eff = []" "b" "type_is_Effect w = None"
    by (simp_all split: if_splits)
  with T_more m res show ?thesis
    by (simp add: run_callbacks_exhausted frame_def enter_def leave_def)
next
  case (T_run_callbacks chain result)
  obtain b w where res: "result = (b, w)" by (cases result)
  from assms T_run_callbacks res have "chain = []" "b" "type_is_Effect w = None"
    by (simp_all split: if_splits)
  with T_run_callbacks res show ?thesis
    by (simp add: run_callbacks_exhausted)
qed

lemma perform_reaching_unhandled_failure:
  assumes r: "reach n call d (T_perform eff) (enter (enter st)) = Some (g, s)"
    and u: "unhandled_failure g = Some v"
  shows "\<exists>st'. perform call d eff st = Some (Inr (), st') \<and> work st' = None \<and>
               invoked st' = invoked s"
proof -
  from unhandled_failure_step [OF u, of call d s] obtain s' where
    step: "run_thunk call d g (s\<lparr>work := None\<rparr>) = (Inr (), s')"
    and w: "work s' = None" and i: "invoked s' = invoked s"
    by blast
  from reach_loop [OF r] trampoline_loop_done [OF step w]
  have "trampoline_loop call d (T_perform eff) (enter (enter st)) = Some (Inr (), s')"
    by simp
  then have "perform call d eff st = Some (Inr (), leave (leave s'))"
    by (simp add: perform_unfold)
  moreover have "work (leave (leave s')) = None" "invoked (leave (leave s')) = invoked s"
    using w i by (simp_all add: leave_def)
  ultimately show ?thesis by blast
qed

lemma perform_failing_intent:
  assumes "\<forall>entry\<in>set chain. snd entry = None" and "type_is_Effect v = None"
  shows "\<exists>st'. perform call default_dispatcher
                  (EffectObj k (Intent n (Some (Performer (Some (Fail v)) (Inr r)))) chain) st =
                  Some (Inr (), st') \<and>
                work st' = None \<and> invoked st' = invoked st \<and> depth st' = depth st"
proof -
  let ?eff = "EffectObj k (Intent n (Some (Performer (Some (Fail v)) (Inr r)))) chain"
  let ?s0 = "enter (enter st)"
  from step_perform [of ?eff n "Fail v" r call ?s0] obtain s1 where
    1: "trampoline_loop call default_dispatcher (T_perform ?eff) ?s0 =
        trampoline_loop call default_dispatcher (T_more (Lambda_more ?eff) (True, v)) s1"
    and i1: "invoked s1 = invoked ?s0"
    by auto
  from step_more [of call default_dispatcher ?eff True v s1] obtain s2 where
    2: "trampoline_loop call default_dispatcher (T_more (Lambda_more ?eff) (True, v)) s1 =
        trampoline_loop call default_dispatcher (T_run_callbacks chain (True, v)) s2"
    and i2: "invoked s2 = invoked s1"
    by auto
  from walk_unhandled_failure [OF assms, of call default_dispatcher s2] obtain s3 where
    3: "trampoline_loop call default_dispatcher (T_run_callbacks chain (True, v)) s2 =
        Some (Inr (), s3)"
    and w3: "work s3 = None" and i3: "invoked s3 = invoked s2"
    by auto
  from 1 2 3 have loop: "trampoline_loop call default_dispatcher (T_perform ?eff) ?s0 =
        Some (Inr (), s3)"
    by simp
  from trampoline_loop_frames [OF loop] have d3: "depth s3 = depth ?s0" by simp
  have "perform call default_dispatcher ?eff st = Some (Inr (), leave (leave s3))"
    by (simp add: perform_unfold loop)
  moreover have "work (leave (leave s3)) = None" "invoked (leave (leave s3)) = invoked st"
    "depth (leave (leave s3)) = depth st"
    using w3 i3 i2 i1 d3 by (simp_all add: leave_def enter_def)
  ultimately show ?thesis by blast
qed

section \<open>Claims\<close>

subsection \<open>C1: an intent without \<open>perform_effect\<close> under the default dispatcher\<close>

text \<open>
  C1, as stated, fails at \<open>Effect(intent).on_error(lambda e: 'fallback')\<close> for an intent
  without the method: \<open>dispatch_method\<close> raises \<open>NoEffectHandlerError\<close>, the box is
  never used, no continuation is invoked and the exception leaves \<open>perform\<close>.
\<close>

theorem on_error_never_sees_no_handler:
  "perform apply_cont default_dispatcher
     (EffectObj Effect_class (Intent ''db'' None) [(None, Some (Return (PyStr ''fallback'')))])
     start =
   Some (Inl (NoEffectHandlerError (Intent ''db'' None)),
         \<lparr>work = None, invoked = [], depth = 0, peak = 5\<rparr>)"
  by code_simp

text \<open>
  C1, amended: for every Effect whose intent has no \<open>perform_effect\<close> method, the default
  dispatcher raises \<open>NoEffectHandlerError\<close> naming that intent and leaves the state as it
  was, so nothing is bounced and nothing is put into the box; the step that performs the
  Effect ends the trampoline loop with that exception, and so \<open>perform\<close> raises it without
  invoking any continuation of the chain.
\<close>

theorem no_handler_error_is_raised:
  assumes "\<not> hasattr_perform_effect (intent eff)"
  shows "default_dispatcher (intent eff) b st =
           (Inl (NoEffectHandlerError (intent eff)),
            st\<lparr>peak := max (peak st) (depth st + 2)\<rparr>) \<and>
         trampoline_loop call default_dispatcher (T_perform eff) st =
           Some (Inl (NoEffectHandlerError (intent eff)),
                 st\<lparr>work := None, peak := max (peak st) (depth st + 3)\<rparr>) \<and>
         perform call default_dispatcher eff st =
           Some (Inl (NoEffectHandlerError (intent eff)),
                 st\<lparr>work := None, peak := max (peak st) (depth st + 5)\<rparr>)"
proof -
  have loop: "trampoline_loop call default_dispatcher (T_perform eff) s =
      Some (Inl (NoEffectHandlerError (intent eff)),
            s\<lparr>work := None, peak := max (peak s) (depth s + 3)\<rparr>)" for s
    by (rule trampoline_loop_raise) (simp add: perform'_no_handler [OF assms])
  show ?thesis
    by (simp add: dispatch_no_handler [OF assms] loop perform_def trampoline_def frame_opt_def
        enter_def leave_def max.assoc)
qed

theorem no_handler_error_is_raised_witness:
  "\<not> hasattr_perform_effect
       (intent (EffectObj Effect_class (Intent ''db'' None)
                  [(None, Some (Return (PyStr ''fallback'')))])) \<and>
   perform apply_cont default_dispatcher
     (EffectObj Effect_class (Intent ''db'' None) [(None, Some (Return (PyStr ''fallback'')))])
     start =
   Some (Inl (NoEffectHandlerError (Intent ''db'' None)),
         \<lparr>work = None, invoked = [], depth = 0, peak = 5\<rparr>)"
  using no_handler_error_is_raised
    [of "EffectObj Effect_class (Intent ''db'' None) [(None, Some (Return (PyStr ''fallback'')))]"
        "\<lparr>box_more = Lambda_more (EffectObj Effect_class (Intent ''db'' None) [])\<rparr>"
        start apply_cont]
  by (simp add: start_def)

subsection \<open>C6: an entry without the matching continuation\<close>

text \<open>
  C6: when \<open>_run_callbacks\<close> reaches an entry (the value is then not of type \<open>Effect\<close>,
  by the test before it) and the continuation selected by the is-failure tag is absent,
  it invokes nothing and bounces \<open>_run_callbacks\<close> on the rest of the chain with the same
  (is-failure, value) result; the loop goes on from there.  An entry attached by
  \<open>on_error\<close> is \<open>(None, Some h)\<close>, so a success passes it in this way.
\<close>

theorem absent_continuation_passes_result:
  assumes "type_is_Effect v = None" and "select entry is_error = None"
  shows "run_callbacks call (entry # rest) (is_error, v) st =
           (Inr (), st\<lparr>work := Some (T_run_callbacks rest (is_error, v)),
                       peak := max (peak st) (depth st + 2)\<rparr>) \<and>
         trampoline_loop call d (T_run_callbacks (entry # rest) (is_error, v)) st =
           trampoline_loop call d (T_run_callbacks rest (is_error, v))
             (st\<lparr>work := Some (T_run_callbacks rest (is_error, v)),
                 peak := max (peak st) (depth st + 2)\<rparr>)"
proof -
  have step: "run_callbacks call (entry # rest) (is_error, v) s =
           (Inr (), s\<lparr>work := Some (T_run_callbacks rest (is_error, v)),
                       peak := max (peak s) (depth s + 2)\<rparr>)" for s
    by (rule run_callbacks_absent [OF assms])
  have "trampoline_loop call d (T_run_callbacks (entry # rest) (is_error, v)) st =
           trampoline_loop call d (T_run_callbacks rest (is_error, v))
             ((st\<lparr>work := None\<rparr>)\<lparr>work := Some (T_run_callbacks rest (is_error, v)),
                 peak := max (peak (st\<lparr>work := None\<rparr>)) (depth (st\<lparr>work := None\<rparr>) + 2)\<rparr>)"
    by (rule trampoline_loop_bounce [where u = "()"]) (simp_all add: step)
  then show ?thesis by (simp add: step)
qed

theorem absent_continuation_passes_result_witness:
  "type_is_Effect (PyInt 7 :: cont val) = None \<and>
   select (None, Some (Return (PyStr ''fallback''))) False = None \<and>
   run_callbacks apply_cont [(None, Some (Return (PyStr ''fallback''))), (Some Add_one, None)]
     (False, PyInt 7) start =
   (Inr (), \<lparr>work = Some (T_run_callbacks [(Some Add_one, None)] (False, PyInt 7)),
             invoked = [], depth = 0, peak = 2\<rparr>)"
  using absent_continuation_passes_result
    [of "PyInt 7" "(None, Some (Return (PyStr ''fallback'')))" False apply_cont
        "[(Some Add_one, None)]" start]
  by (simp add: start_def)

subsection \<open>C7: what a continuation does becomes the next result\<close>

text \<open>
  C7: when \<open>_run_callbacks\<close> invokes the continuation \<open>f\<close> of an entry on the value
  \<open>v\<close>, the result it bounces to \<open>_run_callbacks\<close> for the rest of the chain is
  \<open>(True, sys.exc_info())\<close> of the exception if \<open>f\<close> raises, and \<open>(False, r)\<close> if \<open>f\<close>
  returns \<open>r\<close>.  In the first case an error continuation of the next entry is invoked
  with that \<open>exc_info\<close>; in the second a success continuation of the next entry is
  invoked with \<open>r\<close> (when \<open>r\<close> is an \<open>Effect\<close> the step splices instead, see C10).
\<close>

theorem continuation_outcome_is_next_result:
  assumes "type_is_Effect v = None" and "select entry is_error = Some f"
  shows "run_callbacks call (entry # rest) (is_error, v) st =
           (Inr (),
            st\<lparr>work := Some (T_run_callbacks rest
                       (case call f v of Inr r \<Rightarrow> (False, r) | Inl x \<Rightarrow> (True, ExcInfo x))),
               invoked := invoked st @ [(f, v)],
               peak := max (peak st) (depth st + 3)\<rparr>) \<and>
         (\<forall>x. call f v = Inl x \<longrightarrow>
            work (snd (run_callbacks call (entry # rest) (is_error, v) st)) =
              Some (T_run_callbacks rest (True, ExcInfo x)) \<and>
            (\<forall>s h rest' st'.
               invoked (snd (run_callbacks call ((s, Some h) # rest') (True, ExcInfo x) st')) =
                 invoked st' @ [(h, ExcInfo x)])) \<and>
         (\<forall>r. call f v = Inr r \<longrightarrow>
            work (snd (run_callbacks call (entry # rest) (is_error, v) st)) =
              Some (T_run_callbacks rest (False, r)) \<and>
            (\<forall>s h rest' st'. type_is_Effect r = None \<longrightarrow>
               invoked (snd (run_callbacks call ((Some s, h) # rest') (False, r) st')) =
                 invoked st' @ [(s, r)]))"
  by (simp add: run_callbacks_present [OF assms] run_callbacks_present [where is_error = True]
      run_callbacks_present [where is_error = False])

theorem continuation_outcome_is_next_result_witness:
  "type_is_Effect (PyInt 1 :: cont val) = None \<and>
   select (Some (Throw ''boom''), None) False = Some (Throw ''boom'') \<and>
   apply_cont (Throw ''boom'') (PyInt 1) = Inl (Exception ''boom'') \<and>
   run_callbacks apply_cont [(Some (Throw ''boom''), None), (None, Some (Return (PyInt 0)))]
     (False, PyInt 1) start =
     (Inr (),
      \<lparr>work = Some (T_run_callbacks [(None, Some (Return (PyInt 0)))]
                (True, ExcInfo (Exception ''boom''))),
         invoked = [(Throw ''boom'', PyInt 1)], depth = 0, peak = 3\<rparr>) \<and>
   invoked (snd (run_callbacks apply_cont [(None, Some (Return (PyInt 0)))]
                  (True, ExcInfo (Exception ''boom'')) start)) =
     [(Return (PyInt 0), ExcInfo (Exception ''boom''))] \<and>
   type_is_Effect (PyInt 2 :: cont val) = None \<and>
   select (Some Add_one, None) False = Some Add_one \<and>
   apply_cont Add_one (PyInt 2) = Inr (PyInt 3) \<and>
   work (snd (run_callbacks apply_cont [(Some Add_one, None), (Some Add_one, None)]
                (False, PyInt 2) start)) =
     Some (T_run_callbacks [(Some Add_one, None)] (False, PyInt 3)) \<and>
   invoked (snd (run_callbacks apply_cont [(Some Add_one, None)] (False, PyInt 3) start)) =
     [(Add_one, PyInt 3)]"
  using continuation_outcome_is_next_result
    [of "PyInt 1" "(Some (Throw ''boom''), None)" False "Throw ''boom''" apply_cont
        "[(None, Some (Return (PyInt 0)))]" start]
    continuation_outcome_is_next_result
    [of "PyInt 2" "(Some Add_one, None)" False Add_one apply_cont
        "[(Some Add_one, None)]" start]
  by (simp add: start_def)

subsection \<open>C10: the exact type test\<close>

text \<open>
  C10: \<open>_run_callbacks\<close> tests \<open>type(value) is Effect\<close> first.  If the value is an
  instance of exactly \<open>Effect\<close> then, whatever the is-failure tag and the chain, it invokes
  no continuation and bounces \<open>_perform\<close> on an Effect with the value's intent and the
  value's callbacks followed by the chain; this holds as well for the value that
  \<open>box.succeed\<close> or \<open>box.fail\<close> hands to the box's \<open>_more\<close>.  An instance of a proper
  subclass is treated as any other value: the chain ends on it, or the selected
  continuation is invoked with it, or it passes an entry without one.
\<close>

theorem exact_Effect_type_is_spliced:
  "(klass e = Effect_class \<longrightarrow>
      run_callbacks call chain (is_error, Obj e) st =
        (Inr (),
         st\<lparr>work := Some (T_perform (EffectObj Effect_class (intent e) (callbacks e @ chain))),
            peak := max (peak st) (depth st + 3)\<rparr>) \<and>
      work (snd (succeed b (Obj e) st)) = Some (T_more (box_more b) (False, Obj e)) \<and>
      work (snd (fail b (Obj e) st)) = Some (T_more (box_more b) (True, Obj e)) \<and>
      run_thunk call d (T_more (Lambda_more eff) (is_error, Obj e)) st =
        (Inr (),
         st\<lparr>work := Some (T_perform
                    (EffectObj Effect_class (intent e) (callbacks e @ callbacks eff))),
            peak := max (peak st) (depth st + 4)\<rparr>)) \<and>
   (klass e \<noteq> Effect_class \<longrightarrow>
      run_callbacks call [] (is_error, Obj e) st =
        (Inr (), st\<lparr>peak := max (peak st) (depth st + 1)\<rparr>) \<and>
      (\<forall>entry rest f. select entry is_error = Some f \<longrightarrow>
         run_callbacks call (entry # rest) (is_error, Obj e) st =
           (Inr (),
            st\<lparr>work := Some (T_run_callbacks rest
                       (case call f (Obj e) of Inr r \<Rightarrow> (False, r)
                        | Inl x \<Rightarrow> (True, ExcInfo x))),
               invoked := invoked st @ [(f, Obj e)],
               peak := max (peak st) (depth st + 3)\<rparr>)) \<and>
      (\<forall>entry rest. select entry is_error = None \<longrightarrow>
         run_callbacks call (entry # rest) (is_error, Obj e) st =
           (Inr (),
            st\<lparr>work := Some (T_run_callbacks rest (is_error, Obj e)),
               peak := max (peak st) (depth st + 2)\<rparr>)))"
  by (simp add: run_callbacks_splice run_callbacks_exhausted run_callbacks_present
      run_callbacks_absent succeed_eq fail_eq frame_def enter_def leave_def max.assoc)

theorem exact_Effect_type_is_spliced_witness:
  "klass (EffectObj Effect_class (Intent ''inner'' None) [(None, Some (Return PyNone))]) =
     Effect_class \<and>
   run_callbacks apply_cont [(Some Add_one, None)]
     (True, Obj (EffectObj Effect_class (Intent ''inner'' None) [(None, Some (Return PyNone))]))
     start =
     (Inr (),
      \<lparr>work = Some (T_perform (EffectObj Effect_class (Intent ''inner'' None)
                [(None, Some (Return PyNone)), (Some Add_one, None)])),
         invoked = [], depth = 0, peak = 3\<rparr>) \<and>
   klass (EffectObj (Effect_subclass ''MyEffect'') (Intent ''inner'' None) []) \<noteq> Effect_class \<and>
   select (Some (Return PyNone), None) False = Some (Return PyNone) \<and>
   run_callbacks apply_cont [(Some (Return PyNone), None)]
     (False, Obj (EffectObj (Effect_subclass ''MyEffect'') (Intent ''inner'' None) [])) start =
     (Inr (),
      \<lparr>work = Some (T_run_callbacks [] (False, PyNone)),
         invoked = [(Return PyNone,
                     Obj (EffectObj (Effect_subclass ''MyEffect'') (Intent ''inner'' None) []))],
         depth = 0, peak = 3\<rparr>) \<and>
   select (None, Some (Return PyNone)) False = None \<and>
   run_callbacks apply_cont [(None, Some (Return PyNone))]
     (False, Obj (EffectObj (Effect_subclass ''MyEffect'') (Intent ''inner'' None) [])) start =
     (Inr (),
      \<lparr>work = Some (T_run_callbacks []
                (False, Obj (EffectObj (Effect_subclass ''MyEffect'') (Intent ''inner'' None) []))),
         invoked = [], depth = 0, peak = 2\<rparr>)"
  using exact_Effect_type_is_spliced
    [of "EffectObj Effect_class (Intent ''inner'' None) [(None, Some (Return PyNone))]"
        apply_cont "[(Some Add_one, None)]" True start]
    exact_Effect_type_is_spliced
    [of "EffectObj (Effect_subclass ''MyEffect'') (Intent ''inner'' None) []"
        apply_cont _ False start]
  by (simp add: start_def)

subsection \<open>C2: a failure that reaches the end of the chain\<close>

text \<open>
  C2, as stated, fails for the \<open>perform\<close> of \<open>effect/__init__.py\<close>: an intent that fails
  its box, under a chain with no error continuation, makes \<open>perform\<close> return \<open>None\<close>
  with no continuation invoked; the outcome does not depend on the failure, which is
  neither returned nor raised.
\<close>

theorem unhandled_failure_leaves_no_trace:
  "perform apply_cont default_dispatcher
     (EffectObj Effect_class
        (Intent ''read'' (Some (synchronous_performer (Inl (Exception ''boom'')))))
        [(Some Add_one, None)])
     start =
   Some (Inr (), \<lparr>work = None, invoked = [], depth = 0, peak = 8\<rparr>) \<and>
   perform apply_cont default_dispatcher
     (EffectObj Effect_class
        (Intent ''read'' (Some (synchronous_performer (Inl (Exception ''other'')))))
        [(Some Add_one, None)])
     start =
   Some (Inr (), \<lparr>work = None, invoked = [], depth = 0, peak = 8\<rparr>)"
  by code_simp

text \<open>
  C2, amended: in every \<open>perform\<close> call, with any dispatcher, in which a failure result
  reaches the end of the callback chain with no error continuation having handled it
  (after some number of steps the loop is about to call \<open>_run_callbacks\<close> with an empty
  chain and a failure, whether the intent failed the box or a continuation raised, and
  whatever entries were passed before), \<open>_run_callbacks\<close> returns without bouncing
  anything and \<open>perform\<close> returns \<open>None\<close> normally, with no further continuation
  invoked: the failure is not passed on by \<open>perform\<close> itself.  A caller sees it only
  through an error continuation of its own in the chain (as \<open>effect.twisted.perform\<close>
  attaches one), which is invoked with the failure.  In particular an intent that fails
  its box under a chain without error continuations makes \<open>perform\<close> return with no
  continuation invoked at all.  (\<open>perform\<close> runs the loop two frames down, hence the
  state \<open>enter (enter st)\<close>.)
\<close>

theorem unhandled_failure_is_dropped:
  "(reach n call d (T_perform eff) (enter (enter st)) = Some (g, s) \<and>
    unhandled_failure g = Some v \<longrightarrow>
      (\<exists>s'. run_thunk call d g (s\<lparr>work := None\<rparr>) = (Inr (), s') \<and>
            work s' = None \<and> invoked s' = invoked s) \<and>
      (\<exists>st'. perform call d eff st = Some (Inr (), st') \<and> work st' = None \<and>
             invoked st' = invoked s)) \<and>
   (type_is_Effect v = None \<longrightarrow>
      run_callbacks call [] (True, v) st =
        (Inr (), st\<lparr>peak := max (peak st) (depth st + 1)\<rparr>) \<and>
      invoked (snd (run_callbacks call ((s0, Some h) # rest) (True, v) st)) =
        invoked st @ [(h, v)]) \<and>
   ((\<forall>entry\<in>set chain. snd entry = None) \<and> type_is_Effect v = None \<longrightarrow>
      (\<exists>st'. perform call default_dispatcher
               (EffectObj k (Intent n0 (Some (Performer (Some (Fail v)) (Inr r)))) chain) st =
               Some (Inr (), st') \<and>
             work st' = None \<and> invoked st' = invoked st \<and> depth st' = depth st))"
proof (intro conjI impI)
  assume a: "reach n call d (T_perform eff) (enter (enter st)) = Some (g, s) \<and>
    unhandled_failure g = Some v"
  then show "\<exists>s'. run_thunk call d g (s\<lparr>work := None\<rparr>) = (Inr (), s') \<and>
            work s' = None \<and> invoked s' = invoked s"
    by (simp add: unhandled_failure_step)
  from a show "\<exists>st'. perform call d eff st = Some (Inr (), st') \<and> work st' = None \<and>
             invoked st' = invoked s"
    using perform_reaching_unhandled_failure [of n call d eff st g s v] by simp
next
  assume t: "type_is_Effect v = None"
  show "run_callbacks call [] (True, v) st =
        (Inr (), st\<lparr>peak := max (peak st) (depth st + 1)\<rparr>)"
    by (rule run_callbacks_exhausted [OF t])
  show "invoked (snd (run_callbacks call ((s0, Some h) # rest) (True, v) st)) =
        invoked st @ [(h, v)]"
    by (simp add: run_callbacks_present [OF t, of "(s0, Some h)" True h])
next
  assume "(\<forall>entry\<in>set chain. snd entry = None) \<and> type_is_Effect v = None"
  then show "\<exists>st'. perform call default_dispatcher
               (EffectObj k (Intent n0 (Some (Performer (Some (Fail v)) (Inr r)))) chain) st =
               Some (Inr (), st') \<and>
             work st' = None \<and> invoked st' = invoked st \<and> depth st' = depth st"
    using perform_failing_intent [of chain v call k n0 r st] by simp
qed

theorem unhandled_failure_is_dropped_witness:
  "reach 3 apply_cont default_dispatcher (T_perform one_then_throw) (enter (enter start)) =
     Some (T_run_callbacks [] (True, ExcInfo (Exception ''boom'')),
           \<lparr>work = Some (T_run_callbacks [] (True, ExcInfo (Exception ''boom''))),
              invoked = [(Throw ''boom'', PyInt 1)], depth = 2, peak = 8\<rparr>) \<and>
   unhandled_failure (T_run_callbacks [] (True, ExcInfo (Exception ''boom'') :: cont val)) =
     Some (ExcInfo (Exception ''boom'')) \<and>
   perform apply_cont default_dispatcher one_then_throw start =
     Some (Inr (),
           \<lparr>work = None, invoked = [(Throw ''boom'', PyInt 1)], depth = 0, peak = 8\<rparr>) \<and>
   set [(Some Add_one, None :: cont option)] = {(Some Add_one, None)} \<and>
   snd (Some Add_one, None :: cont option) = None \<and>
   type_is_Effect (ExcInfo (Exception ''boom'') :: cont val) = None \<and>
   perform apply_cont default_dispatcher
     (EffectObj Effect_class
        (Intent ''read'' (Some (Performer (Some (Fail (ExcInfo (Exception ''boom'')))) (Inr PyNone))))
        [(Some Add_one, None)])
     start =
   Some (Inr (), \<lparr>work = None, invoked = [], depth = 0, peak = 8\<rparr>) \<and>
   invoked (snd (run_callbacks apply_cont [(None, Some (Return (PyStr ''fallback'')))]
                   (True, ExcInfo (Exception ''boom'')) start)) =
     [(Return (PyStr ''fallback''), ExcInfo (Exception ''boom''))]"
proof -
  have r: "reach 3 apply_cont default_dispatcher (T_perform one_then_throw)
       (enter (enter start)) =
     Some (T_run_callbacks [] (True, ExcInfo (Exception ''boom'')),
           \<lparr>work = Some (T_run_callbacks [] (True, ExcInfo (Exception ''boom''))),
              invoked = [(Throw ''boom'', PyInt 1)], depth = 2, peak = 8\<rparr>)"
    by code_simp
  have p1: "perform apply_cont default_dispatcher one_then_throw start =
     Some (Inr (),
           \<lparr>work = None, invoked = [(Throw ''boom'', PyInt 1)], depth = 0, peak = 8\<rparr>)"
    by code_simp
  have p2: "perform apply_cont default_dispatcher
     (EffectObj Effect_class
        (Intent ''read'' (Some (Performer (Some (Fail (ExcInfo (Exception ''boom'')))) (Inr PyNone))))
        [(Some Add_one, None)])
     start =
   Some (Inr (), \<lparr>work = None, invoked = [], depth = 0, peak = 8\<rparr>)"
    by code_simp
  from unhandled_failure_is_dropped
    [where n = 3 and call = apply_cont and d = default_dispatcher and eff = one_then_throw
       and st = start and g = "T_run_callbacks [] (True, ExcInfo (Exception ''boom''))"
       and s = "\<lparr>work = Some (T_run_callbacks [] (True, ExcInfo (Exception ''boom''))),
              invoked = [(Throw ''boom'', PyInt 1)], depth = 2, peak = 8\<rparr>"
       and v = "ExcInfo (Exception ''boom'')" and ?s0.0 = None
       and h = "Return (PyStr ''fallback'')" and rest = "[]"
       and chain = "[(Some Add_one, None)]" and k = Effect_class and ?n0.0 = "''read''"
       and r = PyNone]
    r p1 p2
  show ?thesis by (simp add: start_def)
qed

subsection \<open>C3: flattening\<close>

text \<open>
  C3: when the continuation \<open>ci\<close> of an entry returns an \<open>Effect\<close> \<open>e'\<close>, the step
  bounces \<open>_run_callbacks\<close> for the rest of the chain with \<open>(False, e')\<close>, and that step
  bounces \<open>_perform\<close> on the spliced Effect: the intent of \<open>e'\<close> with the callbacks of
  \<open>e'\<close> followed by the rest of the outer chain.  For an outer Effect with success
  continuations \<open>pre\<close>, \<open>ci\<close>, \<open>post\<close> and an inner Effect with success continuations
  \<open>ds\<close>, where the two intents succeed and the other continuations return plain values,
  \<open>perform\<close> returns, and the continuations it invoked are, in order, \<open>pre\<close>, \<open>ci\<close>,
  \<open>ds\<close>, \<open>post\<close>, each with the value the one before returned.
\<close>

theorem continuation_effect_is_flattened:
  "(type_is_Effect v = None \<and> select entry is_error = Some ci \<and> call ci v = Inr (Obj e') \<and>
    klass e' = Effect_class \<longrightarrow>
      work (snd (run_callbacks call (entry # rest) (is_error, v) st)) =
        Some (T_run_callbacks rest (False, Obj e')) \<and>
      invoked (snd (run_callbacks call (entry # rest) (is_error, v) st)) =
        invoked st @ [(ci, v)] \<and>
      (\<forall>st1. run_callbacks call rest (False, Obj e') st1 =
         (Inr (),
          st1\<lparr>work := Some (T_perform
                     (EffectObj Effect_class (intent e') (callbacks e' @ rest))),
              peak := max (peak st1) (depth st1 + 3)\<rparr>))) \<and>
   (pipeline call pre v0 = Some (tr1, w1) \<and> type_is_Effect v0 = None \<and>
    call ci w1 = Inr (Obj e') \<and> klass e' = Effect_class \<and>
    intent e' = Intent n' (Some (Performer (Some (Succeed v1)) (Inr r1))) \<and>
    callbacks e' = success_chain ds \<and> type_is_Effect v1 = None \<and>
    pipeline call (ds @ post) v1 = Some (tr2, w2) \<longrightarrow>
      (\<exists>st'. perform call default_dispatcher
                (EffectObj k (Intent n (Some (Performer (Some (Succeed v0)) (Inr r0))))
                   (success_chain (pre @ ci # post))) st =
                Some (Inr (), st') \<and>
              invoked st' = invoked st @ tr1 @ (ci, w1) # tr2 \<and>
              map fst (tr1 @ (ci, w1) # tr2) = pre @ ci # ds @ post))"
proof (intro conjI impI)
  assume h: "type_is_Effect v = None \<and> select entry is_error = Some ci \<and>
    call ci v = Inr (Obj e') \<and> klass e' = Effect_class"
  then have t: "type_is_Effect v = None" and s: "select entry is_error = Some ci"
    and c: "call ci v = Inr (Obj e')" and e: "type_is_Effect (Obj e') = Some e'"
    by simp_all
  show "work (snd (run_callbacks call (entry # rest) (is_error, v) st)) =
        Some (T_run_callbacks rest (False, Obj e'))"
    by (simp add: run_callbacks_present [OF t s] c)
  show "invoked (snd (run_callbacks call (entry # rest) (is_error, v) st)) =
        invoked st @ [(ci, v)]"
    by (simp add: run_callbacks_present [OF t s])
  show "\<forall>st1. run_callbacks call rest (False, Obj e') st1 =
         (Inr (),
          st1\<lparr>work := Some (T_perform
                     (EffectObj Effect_class (intent e') (callbacks e' @ rest))),
              peak := max (peak st1) (depth st1 + 3)\<rparr>)"
    by (simp add: run_callbacks_splice [OF e])
next
  assume "pipeline call pre v0 = Some (tr1, w1) \<and> type_is_Effect v0 = None \<and>
    call ci w1 = Inr (Obj e') \<and> klass e' = Effect_class \<and>
    intent e' = Intent n' (Some (Performer (Some (Succeed v1)) (Inr r1))) \<and>
    callbacks e' = success_chain ds \<and> type_is_Effect v1 = None \<and>
    pipeline call (ds @ post) v1 = Some (tr2, w2)"
  then show "\<exists>st'. perform call default_dispatcher
                (EffectObj k (Intent n (Some (Performer (Some (Succeed v0)) (Inr r0))))
                   (success_chain (pre @ ci # post))) st =
                Some (Inr (), st') \<and>
              invoked st' = invoked st @ tr1 @ (ci, w1) # tr2 \<and>
              map fst (tr1 @ (ci, w1) # tr2) = pre @ ci # ds @ post"
    using perform_flattened [of call pre v0 tr1 w1 ci e' n' v1 r1 ds post tr2 w2 k n r0 st]
    by blast
qed

theorem continuation_effect_is_flattened_witness:
  "pipeline apply_cont [Add_one] (PyInt 0) = Some ([(Add_one, PyInt 0)], PyInt 1) \<and>
   type_is_Effect (PyInt 0 :: cont val) = None \<and>
   apply_cont (Return (Obj inner_effect)) (PyInt 1) = Inr (Obj inner_effect) \<and>
   klass inner_effect = Effect_class \<and>
   intent inner_effect =
     Intent ''inner'' (Some (Performer (Some (Succeed (PyInt 10))) (Inr PyNone))) \<and>
   callbacks inner_effect = success_chain [Add_one, Return (PyStr ''d2'')] \<and>
   type_is_Effect (PyInt 10 :: cont val) = None \<and>
   pipeline apply_cont ([Add_one, Return (PyStr ''d2'')] @ [Return (PyStr ''c3'')]) (PyInt 10) =
     Some ([(Add_one, PyInt 10), (Return (PyStr ''d2''), PyInt 11),
            (Return (PyStr ''c3''), PyStr ''d2'')], PyStr ''c3'') \<and>
   select (Some (Return (Obj inner_effect)), None) False = Some (Return (Obj inner_effect)) \<and>
   (\<exists>st'. perform apply_cont default_dispatcher
            (EffectObj Effect_class
               (Intent ''outer'' (Some (Performer (Some (Succeed (PyInt 0))) (Inr PyNone))))
               (success_chain ([Add_one] @ Return (Obj inner_effect) # [Return (PyStr ''c3'')])))
            start =
            Some (Inr (), st') \<and>
          invoked st' =
            [(Add_one, PyInt 0), (Return (Obj inner_effect), PyInt 1), (Add_one, PyInt 10),
             (Return (PyStr ''d2''), PyInt 11), (Return (PyStr ''c3''), PyStr ''d2'')]) \<and>
   work (snd (run_callbacks apply_cont
                ((Some (Return (Obj inner_effect)), None) # success_chain [Return (PyStr ''c3'')])
                (False, PyInt 1) start)) =
     Some (T_run_callbacks (success_chain [Return (PyStr ''c3'')]) (False, Obj inner_effect)) \<and>
   run_callbacks apply_cont (success_chain [Return (PyStr ''c3'')]) (False, Obj inner_effect)
     start =
     (Inr (),
      start\<lparr>work := Some (T_perform
                 (EffectObj Effect_class (intent inner_effect)
                    (callbacks inner_effect @ success_chain [Return (PyStr ''c3'')]))),
            peak := 3\<rparr>)"
proof -
  have hyps:
    "pipeline apply_cont [Add_one] (PyInt 0) = Some ([(Add_one, PyInt 0)], PyInt 1)"
    "type_is_Effect (PyInt 0 :: cont val) = None"
    "apply_cont (Return (Obj inner_effect)) (PyInt 1) = Inr (Obj inner_effect)"
    "klass inner_effect = Effect_class"
    "intent inner_effect =
       Intent ''inner'' (Some (Performer (Some (Succeed (PyInt 10))) (Inr PyNone)))"
    "callbacks inner_effect = success_chain [Add_one, Return (PyStr ''d2'')]"
    "type_is_Effect (PyInt 10 :: cont val) = None"
    "pipeline apply_cont ([Add_one, Return (PyStr ''d2'')] @ [Return (PyStr ''c3'')]) (PyInt 10) =
       Some ([(Add_one, PyInt 10), (Return (PyStr ''d2''), PyInt 11),
              (Return (PyStr ''c3''), PyStr ''d2'')], PyStr ''c3'')"
    "type_is_Effect (PyInt 1 :: cont val) = None"
    "select (Some (Return (Obj inner_effect)), None) False = Some (Return (Obj inner_effect))"
    by (simp_all add: inner_effect_def)
  from continuation_effect_is_flattened
    [where v = "PyInt 1" and entry = "(Some (Return (Obj inner_effect)), None)"
       and is_error = False and ci = "Return (Obj inner_effect)" and call = apply_cont
       and e' = inner_effect and rest = "success_chain [Return (PyStr ''c3'')]" and st = start
       and pre = "[Add_one]" and ?v0.0 = "PyInt 0" and ?tr1.0 = "[(Add_one, PyInt 0)]"
       and ?w1.0 = "PyInt 1" and n' = "''inner''" and ?v1.0 = "PyInt 10" and ?r1.0 = PyNone
       and ds = "[Add_one, Return (PyStr ''d2'')]" and post = "[Return (PyStr ''c3'')]"
       and ?tr2.0 = "[(Add_one, PyInt 10), (Return (PyStr ''d2''), PyInt 11),
          (Return (PyStr ''c3''), PyStr ''d2'')]" and ?w2.0 = "PyStr ''c3''"
       and k = Effect_class and n = "''outer''" and ?r0.0 = PyNone]
    hyps
  show ?thesis by (simp add: start_def)
qed

subsection \<open>C4: the depth of the stack\<close>

text \<open>
  C4, on the trampoline as the spec describes it: every step of the engine under the
  default dispatcher closes the frames it opened and opens at most six at a time (the
  deepest is \<open>_perform\<close>, \<open>default_dispatcher\<close>, \<open>dispatch_method\<close>, \<open>perform_effect\<close>,
  \<open>box.succeed\<close>, \<open>bounce\<close>), because box resolution, the chain step and the splice each
  end by bouncing the next function and returning to the loop; so every \<open>perform\<close> that
  returns or raises has used at most eight frames, whatever the length of the chain and
  however many Effects were spliced.  For the chain of 100000 continuations \<open>x + 1\<close> on
  an intent that succeeds with 0, \<open>perform\<close> returns, the continuations were invoked with
  0, 1, ..., 99999 in this order, the value after the last one is 100000, and at most eight
  frames were open.  The frames a continuation or a \<open>perform_effect\<close> method opens below
  itself are not the engine's and are not counted.
\<close>

theorem engine_stack_is_bounded:
  "depth (snd (run_thunk call default_dispatcher f st)) = depth st \<and>
   peak (snd (run_thunk call default_dispatcher f st)) \<le> max (peak st) (depth st + 6) \<and>
   (perform call default_dispatcher eff st = Some out \<longrightarrow>
      depth (snd out) = depth st \<and> peak (snd out) \<le> max (peak st) (depth st + 8)) \<and>
   (\<exists>st'. pipeline apply_cont (replicate 100000 Add_one) (PyInt 0) =
            Some (map (\<lambda>i. (Add_one, PyInt (int i))) [0..<100000], PyInt 100000) \<and>
          perform apply_cont default_dispatcher
            (EffectObj Effect_class (Intent ''zero'' (Some (synchronous_performer (Inr (PyInt 0)))))
               (success_chain (replicate 100000 Add_one)))
            start =
            Some (Inr (), st') \<and>
          invoked st' = map (\<lambda>i. (Add_one, PyInt (int i))) [0..<100000] \<and>
          depth st' = 0 \<and> peak st' \<le> 8)"
proof (intro conjI impI)
  obtain r st1 where rt: "run_thunk call default_dispatcher f st = (r, st1)"
    by (cases "run_thunk call default_dispatcher f st")
  from run_thunk_frames [OF rt] rt
  show "depth (snd (run_thunk call default_dispatcher f st)) = depth st"
    and "peak (snd (run_thunk call default_dispatcher f st)) \<le> max (peak st) (depth st + 6)"
    by simp_all
next
  assume "perform call default_dispatcher eff st = Some out"
  from perform_frames [OF this]
  show "depth (snd out) = depth st" and "peak (snd out) \<le> max (peak st) (depth st + 8)"
    by simp_all
next
  let ?tr = "map (\<lambda>i. (Add_one, PyInt (int i))) [0..<100000]"
  let ?eff = "EffectObj Effect_class
      (Intent ''zero'' (Some (synchronous_performer (Inr (PyInt 0)))))
      (success_chain (replicate 100000 Add_one))"
  have p: "pipeline apply_cont (replicate 100000 Add_one) (PyInt 0) = Some (?tr, PyInt 100000)"
    using pipeline_add_one [of 100000 0] by simp
  have "type_is_Effect (PyInt 0 :: cont val) = None" by simp
  from perform_success_chain [OF p this, of Effect_class "''zero''" PyNone start]
  obtain st' where run: "perform apply_cont default_dispatcher ?eff start = Some (Inr (), st')"
    and inv: "invoked st' = ?tr"
    by (auto simp: synchronous_performer_def start_def)
  from perform_frames [OF run] have "depth st' = 0" "peak st' \<le> 8"
    by (simp_all add: start_def)
  with p run inv
  show "\<exists>st'. pipeline apply_cont (replicate 100000 Add_one) (PyInt 0) =
            Some (?tr, PyInt 100000) \<and>
          perform apply_cont default_dispatcher ?eff start = Some (Inr (), st') \<and>
          invoked st' = ?tr \<and> depth st' = 0 \<and> peak st' \<le> 8"
    by blast
qed

theorem engine_stack_is_bounded_witness:
  "perform apply_cont default_dispatcher
     (EffectObj Effect_class (Intent ''zero'' (Some (synchronous_performer (Inr (PyInt 0)))))
        (success_chain [Add_one, Return (Obj inner_effect), Add_one]))
     start =
     Some (Inr (),
           \<lparr>work = None,
              invoked = [(Add_one, PyInt 0), (Return (Obj inner_effect), PyInt 1),
                         (Add_one, PyInt 10), (Return (PyStr ''d2''), PyInt 11),
                         (Add_one, PyStr ''d2'')],
              depth = 0, peak = 8\<rparr>) \<and>
   depth (snd (Inr () :: cont exc + unit,
           \<lparr>work = None,
              invoked = [(Add_one, PyInt 0), (Return (Obj inner_effect), PyInt 1),
                         (Add_one, PyInt 10), (Return (PyStr ''d2''), PyInt 11),
                         (Add_one, PyStr ''d2'')],
              depth = 0, peak = 8\<rparr>)) = depth (start :: cont machine) \<and>
   (8::nat) \<le> max (peak (start :: cont machine)) (depth (start :: cont machine) + 8)"
proof -
  have run: "perform apply_cont default_dispatcher
     (EffectObj Effect_class (Intent ''zero'' (Some (synchronous_performer (Inr (PyInt 0)))))
        (success_chain [Add_one, Return (Obj inner_effect), Add_one]))
     start =
     Some (Inr (),
           \<lparr>work = None,
              invoked = [(Add_one, PyInt 0), (Return (Obj inner_effect), PyInt 1),
                         (Add_one, PyInt 10), (Return (PyStr ''d2''), PyInt 11),
                         (Add_one, PyStr ''d2'')],
              depth = 0, peak = 8\<rparr>)"
    by code_simp
  from engine_stack_is_bounded
    [where call = apply_cont and st = start and out = "(Inr (),
           \<lparr>work = None,
              invoked = [(Add_one, PyInt 0), (Return (Obj inner_effect), PyInt 1),
                         (Add_one, PyInt 10), (Return (PyStr ''d2''), PyInt 11),
                         (Add_one, PyStr ''d2'')],
              depth = 0, peak = 8\<rparr>)"
       and eff = "EffectObj Effect_class
          (Intent ''zero'' (Some (synchronous_performer (Inr (PyInt 0)))))
          (success_chain [Add_one, Return (Obj inner_effect), Add_one])"] run
  show ?thesis by simp
qed

subsection \<open>C5: the Twisted dispatcher on an intent with \<open>perform_effect\<close>\<close>

text \<open>
  C5 does not hold of the code: for an intent that is not a \<open>ParallelEffects\<close>,
  \<open>twisted_dispatcher\<close> calls \<open>dispatch_method(intent, twisted_dispatcher)\<close> with two
  arguments, the call raises \<open>TypeError\<close> before \<open>perform_effect\<close> is looked up, and the
  bare \<open>except\<close> fails the box with it.  The default dispatcher, on the same intent and
  box, lets the method succeed the box with 1.
\<close>

theorem twisted_dispatcher_fails_with_TypeError:
  "twisted_dispatcher pp read_intent \<lparr>box_more = Lambda_more (EffectObj Effect_class read_intent [])\<rparr>
     start =
     (Inr PyNone,
      \<lparr>work = Some (T_more (Lambda_more (EffectObj Effect_class read_intent []))
                (True, ExcInfo (TypeError ''dispatch_method() takes exactly 3 arguments''))),
         invoked = [], depth = 0, peak = 3\<rparr>) \<and>
   default_dispatcher read_intent \<lparr>box_more = Lambda_more (EffectObj Effect_class read_intent [])\<rparr>
     start =
     (Inr PyNone,
      \<lparr>work = Some (T_more (Lambda_more (EffectObj Effect_class read_intent []))
                (False, PyInt 1)),
         invoked = [], depth = 0, peak = 5\<rparr>)"
  by (simp add: twisted_dispatcher_arity read_intent_def synchronous_performer_def
      dispatch_performer start_def)

subsection \<open>C8: chain extension builds a new Effect\<close>

text \<open>
  C8: for every Effect in the store and each of \<open>on\<close>, \<open>on_success\<close>, \<open>on_error\<close> and
  \<open>after\<close>, the method returns the address of a newly allocated instance of \<open>Effect\<close>
  with the same intent and a newly allocated callbacks list that holds the original
  entries followed by exactly one entry (\<open>(success, error)\<close>, \<open>(f, None)\<close>, \<open>(None, f)\<close>,
  \<open>(f, f)\<close>); no object that existed before is changed, so the original Effect has the
  same intent and the same callbacks as before.
\<close>

theorem chain_extension_builds_new_Effect:
  assumes "effect_at h self = Some e0"
  shows "extended h self (success, error) (on self success error h) \<and>
         extended h self (f, None) (on_success self f h) \<and>
         extended h self (None, f) (on_error self f h) \<and>
         extended h self (f, f) (after self f h)"
  by (simp add: on_success_def on_error_def after_def on_extended [OF assms])

theorem chain_extension_builds_new_Effect_witness:
  "effect_at sample_heap 1 = Some (EffectObj Effect_class (Intent ''read'' None) [(Some Add_one, None)]) \<and>
   on_error 1 (Some (Return PyNone)) sample_heap =
     Some (4, [List_object [(Some Add_one, None)],
               Effect_instance Effect_class (Intent ''read'' None) 0,
               List_object [(Some Add_one, None), (None, Some (Return PyNone))],
               List_object [],
               Effect_instance Effect_class (Intent ''read'' None) 2]) \<and>
   extended sample_heap 1 (None, Some (Return PyNone)) (on_error 1 (Some (Return PyNone)) sample_heap) \<and>
   extended sample_heap 1 (Some Add_one, None) (on_success 1 (Some Add_one) sample_heap) \<and>
   extended sample_heap 1 (Some Add_one, Some Add_one) (after 1 (Some Add_one) sample_heap) \<and>
   extended sample_heap 1 (Some Add_one, Some (Return PyNone))
     (on 1 (Some Add_one) (Some (Return PyNone)) sample_heap)"
proof -
  have e: "effect_at sample_heap 1 =
      Some (EffectObj Effect_class (Intent ''read'' None) [(Some Add_one, None)])"
    by (simp add: effect_at_def lookup_def sample_heap_def)
  have o: "on_error 1 (Some (Return PyNone)) sample_heap =
     Some (4, [List_object [(Some Add_one, None)],
               Effect_instance Effect_class (Intent ''read'' None) 0,
               List_object [(Some Add_one, None), (None, Some (Return PyNone))],
               List_object [],
               Effect_instance Effect_class (Intent ''read'' None) 2])"
    by code_simp
  from chain_extension_builds_new_Effect [OF e, of "Some Add_one" "Some (Return PyNone)" "Some (Return PyNone)"]
    chain_extension_builds_new_Effect [OF e, of "Some Add_one" "Some (Return PyNone)" "Some Add_one"]
    e o
  show ?thesis by simp
qed

subsection \<open>C9: \<open>after\<close>\<close>


end
